theory Spec2Isabelle
  imports Main "HOL-Library.Sublist"
begin

section \<open>The serverless project commands of doctl\<close>

text \<open>
  A shallow embedding of the functions behind \<^verbatim>\<open>doctl serverless init\<close>,
  \<^verbatim>\<open>deploy\<close>, \<^verbatim>\<open>get-metadata\<close> and \<^verbatim>\<open>watch\<close>
  (package \<^verbatim>\<open>commands\<close>, file of \<^verbatim>\<open>ServerlessExtras\<close>).
  Go strings are byte strings (\<^typ>\<open>string\<close>), a Go \<^verbatim>\<open>error\<close> is a value of
  the datatype \<open>error\<close>, a nil error is \<^term>\<open>None\<close>, and a run-time panic is an
  outcome of its own.
\<close>

subsection \<open>Errors and outcomes\<close>

datatype error =
    MissingArgsErr string   \<comment> \<open>\<^verbatim>\<open>doctl.NewMissingArgsErr(ns)\<close>\<close>
  | Errorf string           \<comment> \<open>\<^verbatim>\<open>fmt.Errorf\<close> with the formatted message\<close>
  | ExternalErr string      \<comment> \<open>an error handed back by the OS or by a remote service\<close>

datatype 'a outcome =
    Ok 'a
  | Err error               \<comment> \<open>the function returned a non-nil error\<close>
  | Panic string            \<comment> \<open>the function did not return: run-time panic\<close>

subsection \<open>The functions of package \<^verbatim>\<open>strings\<close> that the code calls\<close>

text \<open>\<^verbatim>\<open>strings.Contains(s, substr)\<close>.\<close>

fun Contains :: "string \<Rightarrow> string \<Rightarrow> bool" where
  "Contains [] substr = (substr = [])"
| "Contains (c # s) substr = (prefix substr (c # s) \<or> Contains s substr)"

text \<open>\<^verbatim>\<open>strings.Replace(s, old, new, 1)\<close>: only the first occurrence is replaced.\<close>

fun Replace1 :: "string \<Rightarrow> string \<Rightarrow> string \<Rightarrow> string" where
  "Replace1 [] old new = (if old = [] then new else [])"
| "Replace1 (c # s) old new =
     (if prefix old (c # s) then new @ drop (length old) (c # s)
      else c # Replace1 s old new)"

text \<open>\<^verbatim>\<open>strings.Split(s, sep)\<close> for a separator of one byte (the code splits on
  \<^verbatim>\<open>","\<close> and \<^verbatim>\<open>":"\<close>). The result is never empty; the last case of the
  inner \<open>case\<close> is there for totality only.\<close>

fun Split :: "string \<Rightarrow> char \<Rightarrow> string list" where
  "Split [] sep = [[]]"
| "Split (c # s) sep =
     (if c = sep then [] # Split s sep
      else (case Split s sep of t # ts \<Rightarrow> (c # t) # ts | [] \<Rightarrow> [[c]]))"

text \<open>\<^verbatim>\<open>strings.Join(elems, sep)\<close>.\<close>

fun Join :: "string list \<Rightarrow> string \<Rightarrow> string" where
  "Join [] sep = []"
| "Join [t] sep = t"
| "Join (t # u # ts) sep = t @ sep @ Join (u # ts) sep"

subsection \<open>Command configuration\<close>

text \<open>
  \<^verbatim>\<open>c.Doit\<close> is the option store behind the interface \<^verbatim>\<open>doctl.Config\<close>.
  \<^verbatim>\<open>GetString\<close> and \<^verbatim>\<open>GetBool\<close> return a value together with an error, as in
  Go; \<^verbatim>\<open>Set\<close> stores a string under a namespace and a key, after which
  \<^verbatim>\<open>GetString\<close> returns it without error.
\<close>

record Config =
  GetString :: "string \<Rightarrow> string \<Rightarrow> string \<times> error option"
  GetBool :: "string \<Rightarrow> string \<Rightarrow> bool \<times> error option"

definition Set :: "Config \<Rightarrow> string \<Rightarrow> string \<Rightarrow> string \<Rightarrow> Config" where
  "Set d ns key val =
     d\<lparr>GetString := (\<lambda>n k. if n = ns \<and> k = key then (val, None) else GetString d n k)\<rparr>"

record CmdConfig =
  NS :: string
  Args :: "string list"
  Doit :: Config

text \<open>Modelled from the spec: the constants that name the flags are declared outside the
  given sources; their values are the names under which \<^verbatim>\<open>ServerlessExtras\<close> registers
  the flags with \<^verbatim>\<open>AddStringFlag\<close> and \<^verbatim>\<open>AddBoolFlag\<close>, the flags of the
  command-line surface of the specification.\<close>

definition flagInclude :: string where "flagInclude = ''include''"
definition flagExclude :: string where "flagExclude = ''exclude''"
definition flagEnv :: string where "flagEnv = ''env''"
definition flagBuildEnv :: string where "flagBuildEnv = ''build-env''"
definition flagApihost :: string where "flagApihost = ''apihost''"
definition flagAuth :: string where "flagAuth = ''auth''"
definition flagInsecure :: string where "flagInsecure = ''insecure''"
definition flagVerboseBuild :: string where "flagVerboseBuild = ''verbose-build''"
definition flagVerboseZip :: string where "flagVerboseZip = ''verbose-zip''"
definition flagYarn :: string where "flagYarn = ''yarn''"
definition flagRemoteBuild :: string where "flagRemoteBuild = ''remote-build''"
definition flagIncremental :: string where "flagIncremental = ''incremental''"
definition flagJSON :: string where "flagJSON = ''json''"
definition flagProjectReader :: string where "flagProjectReader = ''project-reader''"

text \<open>Modelled from the spec: the constant \<^verbatim>\<open>keywordWeb\<close> is declared outside the
  given sources; it is the reserved folder name, \<^verbatim>\<open>web\<close>, the token that
  \<^verbatim>\<open>qualifyWebWithSlash\<close> compares with.\<close>

definition keywordWeb :: string where "keywordWeb = ''web''"

text \<open>Modelled from the spec: \<^verbatim>\<open>ensureOneArg\<close> is declared outside the given
  sources. Exactly one positional argument is required, and the command fails with a
  missing-arguments error otherwise.\<close>

definition ensureOneArg :: "CmdConfig \<Rightarrow> error option" where
  "ensureOneArg c = (if length (Args c) = 1 then None else Some (MissingArgsErr (NS c)))"

subsection \<open>The include and exclude normalizer\<close>

text \<open>\<^verbatim>\<open>qualifyWebWithSlash\<close>: the loop over the tokens, then the join.\<close>

fun qualifyTokens :: "string list \<Rightarrow> string list" where
  "qualifyTokens [] = []"
| "qualifyTokens (token # tokens) =
     (if token = ''web'' then ''web/'' else token) # qualifyTokens tokens"

definition qualifyWebWithSlash :: "string \<Rightarrow> string" where
  "qualifyWebWithSlash original = Join (qualifyTokens (Split original (CHR '',''))) '',''"

definition adjustIncludeAndExclude :: "CmdConfig \<Rightarrow> CmdConfig" where
  "adjustIncludeAndExclude c =
     (let (includes, err) = GetString (Doit c) (NS c) flagInclude;
          c1 = (if err = None \<and> includes \<noteq> ''''
                then c\<lparr>Doit := Set (Doit c) (NS c) flagInclude (qualifyWebWithSlash includes)\<rparr>
                else c);
          (excludes, err) = GetString (Doit c1) (NS c1) flagExclude
      in if err = None \<and> excludes \<noteq> ''''
         then c1\<lparr>Doit := Set (Doit c1) (NS c1) flagExclude
                              (qualifyWebWithSlash excludes @ '','' @ keywordWeb)\<rparr>
         else c1\<lparr>Doit := Set (Doit c1) (NS c1) flagExclude keywordWeb\<rparr>)"

subsection \<open>Rewriting the deploy transcript\<close>

text \<open>The loop of \<^verbatim>\<open>RunServerlessExtraDeploy\<close> over \<^verbatim>\<open>output.Captured\<close>:
  \<open>fixupLine\<close> is the body of the loop, the value stored at the index being visited
  (the value itself where the body stores nothing).\<close>

definition brandedDeployed :: string where
  "brandedDeployed = ''Deployed functions ('doctl sbx fn get <funcName> --url' for URL):''"

definition fixupLine :: "string \<Rightarrow> string" where
  "fixupLine v =
     (if Contains v ''Deploying project'' then Replace1 v ''Deploying project'' ''Deployed''
      else if Contains v ''Deployed actions'' then brandedDeployed
      else v)"

fun fixupCaptured :: "string list \<Rightarrow> string list" where
  "fixupCaptured [] = []"
| "fixupCaptured (v # rest) = fixupLine v # fixupCaptured rest"

subsection \<open>The project specification\<close>

text \<open>Modelled from the spec: the structs \<^verbatim>\<open>do.ServerlessSpec\<close>,
  \<^verbatim>\<open>do.ServerlessPackage\<close>, \<^verbatim>\<open>do.ServerlessFunction\<close> and the other types of
  package \<^verbatim>\<open>do\<close> are declared outside the given sources; the fields below are those
  of the data model of the specification that the code reads and writes.
  \<^verbatim>\<open>Packages\<close> and \<^verbatim>\<open>Functions\<close> are slices of pointers in Go; here every
  pointer is non-nil and no two entries of a slice are the same pointer.\<close>

record ServerlessFunction =
  FuncName :: string      \<comment> \<open>field \<^verbatim>\<open>Name\<close>\<close>
  Runtime :: string
  Web :: bool
  WebSecure :: bool

record ServerlessPackage =
  Name :: string
  Functions :: "ServerlessFunction list"

record ServerlessSpec =
  Packages :: "ServerlessPackage list"

record ServerlessOutput =
  Captured :: "string list"

record ServerlessCredentials =
  APIHost :: string

text \<open>\<^verbatim>\<open>info.Runtimes\<close> is a Go map from runtime names to the runtime's versions; it
  is kept as an association list, one entry for each key.\<close>

record ServerlessHostInfo =
  Runtimes :: "(string \<times> string list) list"

record ServerlessProject =
  ProjectPath :: string

subsection \<open>Effects\<close>

text \<open>
  Every call that leaves the process (file system, remote host, backend, output stream)
  appends one event to a trace; the answer to the call is given by the environment, which
  sees the trace so far. The trace is the state that the functions pass along.
\<close>

datatype event =
    EvCheckServerlessStatus
  | EvReadCredentials
  | EvGetHostInfo string
  | EvStat string
  | EvRemoveAll string
  | EvMkdirAll string
  | EvMkdir string
  | EvWriteFile string string
  | EvFprint string
  | EvPrintServerlessTextOutput ServerlessOutput
  | EvExec string "string list" "string list" "string list"
  | EvExecStreaming string "string list" "string list" "string list"
  | EvReadProject ServerlessProject "string list"

type_synonym trace = "event list"

datatype stat_result =
    StatOk                  \<comment> \<open>\<^verbatim>\<open>os.Stat\<close> returned file information and no error\<close>
  | StatNotExist error      \<comment> \<open>an error for which \<^verbatim>\<open>os.IsNotExist\<close> is true\<close>
  | StatErr error           \<comment> \<open>any other error\<close>

text \<open>
  The environment: the package-level tables and texts that are declared outside the given
  sources, the library functions the code calls, and the answers of the operating system,
  of the remote host and of the backend.
\<close>

record env =
  languageKeywords :: "(string \<times> string list) list"
  samples :: "string \<rightharpoonup> string"
  gitignores :: string
  ignoreForTypescript :: string
  packageJSONForTypescript :: string
  tsconfigJSON :: string
  ToLower :: "string \<Rightarrow> string"
  filepath_Join :: "string list \<Rightarrow> string"
  yaml_Marshal :: "ServerlessSpec \<Rightarrow> string \<times> error option"
  os_Stat :: "trace \<Rightarrow> string \<Rightarrow> stat_result"
  os_RemoveAll :: "trace \<Rightarrow> string \<Rightarrow> error option"
  os_MkdirAll :: "trace \<Rightarrow> string \<Rightarrow> error option"
  os_Mkdir :: "trace \<Rightarrow> string \<Rightarrow> error option"
  os_WriteFile :: "trace \<Rightarrow> string \<Rightarrow> string \<Rightarrow> error option"
  Fprint :: "trace \<Rightarrow> string \<Rightarrow> error option"
  CheckServerlessStatus :: "trace \<Rightarrow> error option"
  ReadCredentials :: "trace \<Rightarrow> ServerlessCredentials \<times> error option"
  GetHostInfo :: "trace \<Rightarrow> string \<Rightarrow> ServerlessHostInfo \<times> error option"
  ReadProject :: "trace \<Rightarrow> ServerlessProject \<Rightarrow> string list \<Rightarrow> ServerlessOutput \<times> error option"
  RunServerlessExec ::
    "trace \<Rightarrow> string \<Rightarrow> CmdConfig \<Rightarrow> string list \<Rightarrow> string list \<Rightarrow> ServerlessOutput \<times> error option"
  RunServerlessExecStreaming ::
    "trace \<Rightarrow> string \<Rightarrow> CmdConfig \<Rightarrow> string list \<Rightarrow> string list \<Rightarrow> error option"
  PrintServerlessTextOutput :: "trace \<Rightarrow> ServerlessOutput \<Rightarrow> error option"

text \<open>\<^verbatim>\<open>writeAFile\<close> and \<^verbatim>\<open>doMkdir\<close>, the two thin wrappers.\<close>

definition writeAFile :: "env \<Rightarrow> trace \<Rightarrow> string \<Rightarrow> string \<Rightarrow> error option \<times> trace" where
  "writeAFile env tr path contents =
     (os_WriteFile env tr path contents, tr @ [EvWriteFile path contents])"

definition doMkdir :: "env \<Rightarrow> trace \<Rightarrow> string \<Rightarrow> bool \<Rightarrow> error option \<times> trace" where
  "doMkdir env tr path parents =
     (if parents then (os_MkdirAll env tr path, tr @ [EvMkdirAll path])
      else (os_Mkdir env tr path, tr @ [EvMkdir path]))"

subsection \<open>The language resolver\<close>

text \<open>The loop of \<^verbatim>\<open>validateRuntime\<close> over the keys of \<^verbatim>\<open>info.Runtimes\<close>.\<close>

fun runtimeListed :: "string \<Rightarrow> (string \<times> string list) list \<Rightarrow> bool" where
  "runtimeListed runtime [] = False"
| "runtimeListed runtime ((validRuntime, versions) # rest) =
     (if runtime = validRuntime then True else runtimeListed runtime rest)"

definition validateRuntime :: "env \<Rightarrow> trace \<Rightarrow> string \<Rightarrow> bool \<times> trace" where
  "validateRuntime env tr runtime =
     (if runtime = ''nodejs'' then (True, tr)
      else
        (let tr1 = tr @ [EvCheckServerlessStatus] in
         case CheckServerlessStatus env tr of
           Some err \<Rightarrow> (True, tr1)
         | None \<Rightarrow>
            (let tr2 = tr1 @ [EvReadCredentials] in
             case ReadCredentials env tr1 of
               (creds, Some err) \<Rightarrow> (True, tr2)
             | (creds, None) \<Rightarrow>
                (let tr3 = tr2 @ [EvGetHostInfo (APIHost creds)] in
                 case GetHostInfo env tr2 (APIHost creds) of
                   (info, Some err) \<Rightarrow> (True, tr3)
                 | (info, None) \<Rightarrow> (runtimeListed runtime (Runtimes info), tr3)))))"

text \<open>\<^verbatim>\<open>isValidLanguage\<close>: the outer loop runs over the entries of the table
  \<^verbatim>\<open>languageKeywords\<close> (a Go map from runtime to keywords, visited here in the order
  of the association list), the inner loop over the keywords of one entry.\<close>

fun isValidLanguage_loop ::
  "env \<Rightarrow> trace \<Rightarrow> string \<Rightarrow> (string \<times> string list) list \<Rightarrow> bool \<times> trace" where
  "isValidLanguage_loop env tr language [] = (False, tr)"
| "isValidLanguage_loop env tr language ((runtime, kwds) # rest) =
     (if language \<in> set kwds then validateRuntime env tr runtime
      else isValidLanguage_loop env tr language rest)"

definition isValidLanguage :: "env \<Rightarrow> trace \<Rightarrow> string \<Rightarrow> bool \<times> trace" where
  "isValidLanguage env tr language =
     isValidLanguage_loop env tr language (languageKeywords env)"

text \<open>\<^verbatim>\<open>samples[language]\<close>: a missing key of a Go map reads as the empty string.\<close>

definition sampleFor :: "env \<Rightarrow> string \<Rightarrow> string" where
  "sampleFor env language = (case samples env language of None \<Rightarrow> [] | Some s \<Rightarrow> s)"

definition languageToKindAndSample ::
  "env \<Rightarrow> trace \<Rightarrow> string \<Rightarrow> ((string \<times> string \<times> bool) \<times> error option) \<times> trace" where
  "languageToKindAndSample env tr language0 =
     (let language = ToLower env language0;
          (valid, tr1) = isValidLanguage env tr language
      in if \<not> valid
         then ((([], [], False), Some (Errorf (language @ '' is not a supported language''))), tr1)
         else
           (let (runtime, ts) =
                  (if language = ''ts'' \<or> language = ''typescript'' then (''nodejs'', True)
                   else if language = ''js'' \<or> language = ''javascript'' then (''nodejs'', False)
                   else if language = ''py'' then (''python'', False)
                   else if language = ''golang'' then (''go'', False)
                   else (language, False))
            in (((runtime @ '':default'', sampleFor env language, ts), None), tr1)))"

subsection \<open>The project scaffolder\<close>

definition configTemplate :: ServerlessSpec where
  "configTemplate = \<lparr>Packages = [\<lparr>Name = ''sample'', Functions = []\<rparr>]\<rparr>"

definition prepareProjectArea ::
  "env \<Rightarrow> trace \<Rightarrow> string \<Rightarrow> bool \<Rightarrow> error option \<times> trace" where
  "prepareProjectArea env tr project overwrite =
     (let tr1 = tr @ [EvStat project] in
      case os_Stat env tr project of
        StatNotExist err \<Rightarrow> (None, tr1)
      | StatErr err \<Rightarrow> (Some err, tr1)
      | StatOk \<Rightarrow>
          (if \<not> overwrite
           then (Some (Errorf (project @ '' already exists; use '--overwrite' to replace'')), tr1)
           else (os_RemoveAll env tr1 project, tr1 @ [EvRemoveAll project])))"

definition fileExtensionForRuntime :: "string \<Rightarrow> string" where
  "fileExtensionForRuntime runtime =
     (if runtime = ''nodejs'' then ''js''
      else if runtime = ''python'' then ''py''
      else runtime)"

text \<open>The search loop of \<^verbatim>\<open>generateSample\<close>: the position of the first package
  named \<^verbatim>\<open>sample\<close>; \<^term>\<open>None\<close> when the loop ends with \<^verbatim>\<open>sampPkg\<close> still
  nil.\<close>

fun findSamplePackage :: "ServerlessPackage list \<Rightarrow> nat option" where
  "findSamplePackage [] = None"
| "findSamplePackage (pkg # pkgs) =
     (if Name pkg = ''sample'' then Some 0
      else map_option Suc (findSamplePackage pkgs))"

text \<open>\<^verbatim>\<open>generateSample\<close>. The sample package is updated through the pointer found by
  the loop; reading \<^verbatim>\<open>sampPkg.Name\<close> through a nil pointer panics.\<close>

definition generateSample ::
  "env \<Rightarrow> trace \<Rightarrow> string \<Rightarrow> ServerlessSpec \<Rightarrow> string \<Rightarrow> string \<Rightarrow> bool
     \<Rightarrow> (string \<times> ServerlessSpec) outcome \<times> trace" where
  "generateSample env tr kind config sample samplePackage ts =
     (case Split kind (CHR '':'') of
        [] \<Rightarrow> (Panic ''index out of range'', tr)
      | runtime # _ \<Rightarrow>
         (let suffix = (if ts then ''ts'' else fileExtensionForRuntime runtime);
              actionDir = filepath_Join env [samplePackage, ''hello'']
          in case doMkdir env tr actionDir True of
               (Some err, tr1) \<Rightarrow> (Err err, tr1)
             | (None, tr1) \<Rightarrow>
                (case (if ts
                       then (let srcDir = filepath_Join env [actionDir, ''src'']
                             in case doMkdir env tr1 srcDir False of
                                  (Some err, tr2) \<Rightarrow> (Inl err, tr2)
                                | (None, tr2) \<Rightarrow>
                                    (Inr (filepath_Join env [srcDir, ''hello.'' @ suffix]), tr2))
                       else (Inr (filepath_Join env [actionDir, ''hello.'' @ suffix]), tr1)) of
                   (Inl err, tr2) \<Rightarrow> (Err err, tr2)
                 | (Inr file, tr2) \<Rightarrow>
                    (case writeAFile env tr2 file sample of
                       (Some err, tr3) \<Rightarrow> (Err err, tr3)
                     | (None, tr3) \<Rightarrow>
                        (case findSamplePackage (Packages config) of
                           None \<Rightarrow> (Panic ''nil pointer dereference'', tr3)
                         | Some i \<Rightarrow>
                            (let sampPkg = Packages config ! i in
                             if Name sampPkg \<noteq> ''sample''
                             then (Err (Errorf ''could not find sample package in config (internal error)''), tr3)
                             else
                               (let function = \<lparr>FuncName = ''hello'', Runtime = kind,
                                                 Web = True, WebSecure = False\<rparr>
                                in (Ok (actionDir,
                                        config\<lparr>Packages :=
                                          (Packages config)[i := sampPkg\<lparr>Functions := [function]\<rparr>]\<rparr>),
                                    tr3))))))))"

text \<open>The three writes of \<^verbatim>\<open>RunServerlessExtraCreate\<close> that are made for
  typescript only.\<close>

definition writeTypescriptFiles :: "env \<Rightarrow> trace \<Rightarrow> string \<Rightarrow> error option \<times> trace" where
  "writeTypescriptFiles env tr actionDir =
     (let pjFile = filepath_Join env [actionDir, ''package.json'']
      in case writeAFile env tr pjFile (packageJSONForTypescript env) of
           (Some err, tr1) \<Rightarrow> (Some err, tr1)
         | (None, tr1) \<Rightarrow>
            (let tscFile = filepath_Join env [actionDir, ''tsconfig.json'']
             in case writeAFile env tr1 tscFile (tsconfigJSON env) of
                  (Some err, tr2) \<Rightarrow> (Some err, tr2)
                | (None, tr2) \<Rightarrow>
                   (let includeFile = filepath_Join env [actionDir, ''.include'']
                    in case writeAFile env tr2 includeFile ''lib\<newline>'' of
                         (Some err, tr3) \<Rightarrow> (Some err, tr3)
                       | (None, tr3) \<Rightarrow> (None, tr3))))"

definition successMessage :: "string \<Rightarrow> string" where
  "successMessage project =
     ''A local functions project directory '' @ [CHR 0x27] @ project @ [CHR 0x27] @
     '' was created for you.\<newline>'' @
     ''You may deploy it by running the command shown on the next line:\<newline>'' @
     ''  doctl serverless deploy '' @ project @ ''\<newline>''"

text \<open>\<^verbatim>\<open>RunServerlessExtraCreate\<close>, the command \<^verbatim>\<open>init\<close>. The body of the Go function
  is kept in its order and cut in three at its own comments: \<open>writeProjectFiles\<close> is the
  part from \<^verbatim>\<open>// Write the config\<close> to the end, \<open>scaffoldProject\<close> the part from
  \<^verbatim>\<open>// Make the config and various paths\<close> on, and \<open>RunServerlessExtraCreate\<close> starts
  with the argument check and the language.\<close>

definition writeProjectFiles ::
  "env \<Rightarrow> trace \<Rightarrow> string \<Rightarrow> string \<Rightarrow> string \<Rightarrow> ServerlessSpec \<Rightarrow> string \<Rightarrow> bool
     \<Rightarrow> unit outcome \<times> trace" where
  "writeProjectFiles env tr4 project configFile gitignoreFile config actionDir ts =
     (case yaml_Marshal env config of
        (data, Some err) \<Rightarrow> (Err err, tr4)
      | (data, None) \<Rightarrow>
     (case writeAFile env tr4 configFile data of
        (Some err, tr5) \<Rightarrow> (Err err, tr5)
      | (None, tr5) \<Rightarrow>
     (let ignores = (if ts then gitignores env @ ignoreForTypescript env else gitignores env)
      in
      case writeAFile env tr5 gitignoreFile ignores of
        (Some err, tr6) \<Rightarrow> (Err err, tr6)
      | (None, tr6) \<Rightarrow>
     (case (if ts then writeTypescriptFiles env tr6 actionDir else (None, tr6)) of
        (Some err, tr7) \<Rightarrow> (Err err, tr7)
      | (None, tr7) \<Rightarrow>
     (let printed = Fprint env tr7 (successMessage project)
      in (Ok (), tr7 @ [EvFprint (successMessage project)]))))))"

definition scaffoldProject ::
  "env \<Rightarrow> trace \<Rightarrow> string \<Rightarrow> bool \<Rightarrow> string \<Rightarrow> string \<Rightarrow> bool \<Rightarrow> unit outcome \<times> trace" where
  "scaffoldProject env tr1 project overwrite kind sample ts =
     (let config = configTemplate;
          configFile = filepath_Join env [project, ''project.yml''];
          gitignoreFile = filepath_Join env [project, ''.gitignore''];
          samplePackage = filepath_Join env [project, ''packages'', ''sample'']
      in
      case prepareProjectArea env tr1 project overwrite of
        (Some err, tr2) \<Rightarrow> (Err err, tr2)
      | (None, tr2) \<Rightarrow>
     (case doMkdir env tr2 samplePackage True of
        (Some err, tr3) \<Rightarrow> (Err err, tr3)
      | (None, tr3) \<Rightarrow>
     (case generateSample env tr3 kind config sample samplePackage ts of
        (Err err, tr4) \<Rightarrow> (Err err, tr4)
      | (Panic p, tr4) \<Rightarrow> (Panic p, tr4)
      | (Ok (actionDir, config1), tr4) \<Rightarrow>
          writeProjectFiles env tr4 project configFile gitignoreFile config1 actionDir ts)))"

definition RunServerlessExtraCreate :: "env \<Rightarrow> CmdConfig \<Rightarrow> trace \<Rightarrow> unit outcome \<times> trace" where
  "RunServerlessExtraCreate env c tr =
     (case ensureOneArg c of
        Some err \<Rightarrow> (Err err, tr)
      | None \<Rightarrow>
     (case Args c of
        [] \<Rightarrow> (Panic ''index out of range'', tr)
      | project # _ \<Rightarrow>
     (let (overwrite, _) = GetBool (Doit c) (NS c) ''overwrite'';
          (language, _) = GetString (Doit c) (NS c) ''language''
      in
      case languageToKindAndSample env tr language of
        (((kind, sample, ts), Some err), tr1) \<Rightarrow> (Err err, tr1)
      | (((kind, sample, ts), None), tr1) \<Rightarrow>
          scaffoldProject env tr1 project overwrite kind sample ts)))"

subsection \<open>Deploy, get-metadata and watch\<close>

definition deployBoolFlags :: "string list" where
  "deployBoolFlags =
     [flagInsecure, flagVerboseBuild, flagVerboseZip, flagYarn, flagRemoteBuild, flagIncremental]"

definition deployStringFlags :: "string list" where
  "deployStringFlags = [flagEnv, flagBuildEnv, flagApihost, flagAuth, flagInclude, flagExclude]"

text \<open>\<^verbatim>\<open>RunServerlessExtraDeploy\<close>. The configuration is returned with the result,
  since \<^verbatim>\<open>adjustIncludeAndExclude\<close> writes to it.\<close>

definition RunServerlessExtraDeploy ::
  "env \<Rightarrow> CmdConfig \<Rightarrow> trace \<Rightarrow> error option \<times> CmdConfig \<times> trace" where
  "RunServerlessExtraDeploy env c0 tr =
     (let c = adjustIncludeAndExclude c0 in
      case ensureOneArg c of
        Some err \<Rightarrow> (Some err, c, tr)
      | None \<Rightarrow>
         (let (output, err) = RunServerlessExec env tr ''deploy'' c deployBoolFlags deployStringFlags;
              tr1 = tr @ [EvExec ''deploy'' (Args c) deployBoolFlags deployStringFlags]
          in if err \<noteq> None \<and> length (Captured output) = 0 then (err, c, tr1)
             else
               (let output1 = output\<lparr>Captured := fixupCaptured (Captured output)\<rparr>
                in if err = None
                   then (PrintServerlessTextOutput env tr1 output1, c,
                         tr1 @ [EvPrintServerlessTextOutput output1])
                   else
                     (let text = Join (Captured output1) ''\<newline>'' @ ''\<newline>'';
                          printed = Fprint env tr1 text
                      in (err, c, tr1 @ [EvFprint text])))))"

definition metadataBoolFlags :: "string list" where
  "metadataBoolFlags = [flagJSON, flagProjectReader]"

definition metadataStringFlags :: "string list" where
  "metadataStringFlags = [flagEnv, flagInclude, flagExclude]"

definition RunServerlessExtraGetMetadata ::
  "env \<Rightarrow> CmdConfig \<Rightarrow> trace \<Rightarrow> unit outcome \<times> CmdConfig \<times> trace" where
  "RunServerlessExtraGetMetadata env c0 tr =
     (let c = adjustIncludeAndExclude c0 in
      case ensureOneArg c of
        Some err \<Rightarrow> (Err err, c, tr)
      | None \<Rightarrow>
         (let (r, _) = GetBool (Doit c) (NS c) flagProjectReader in
          case Args c of
            [] \<Rightarrow> (Panic ''index out of range'', c, tr)
          | arg0 # _ \<Rightarrow>
             (let project = \<lparr>ProjectPath = arg0\<rparr>;
                  ((output, err), tr1) =
                    (if r then (ReadProject env tr project (Args c),
                                tr @ [EvReadProject project (Args c)])
                     else (RunServerlessExec env tr ''get-metadata'' c
                             metadataBoolFlags metadataStringFlags,
                           tr @ [EvExec ''get-metadata'' (Args c)
                                   metadataBoolFlags metadataStringFlags]))
              in case err of
                   Some e \<Rightarrow> (Err e, c, tr1)
                 | None \<Rightarrow>
                    (case PrintServerlessTextOutput env tr1 output of
                       Some e \<Rightarrow> (Err e, c, tr1 @ [EvPrintServerlessTextOutput output])
                     | None \<Rightarrow> (Ok (), c, tr1 @ [EvPrintServerlessTextOutput output])))))"

definition watchBoolFlags :: "string list" where
  "watchBoolFlags = [flagInsecure, flagVerboseBuild, flagVerboseZip, flagYarn, flagRemoteBuild]"

definition watchStringFlags :: "string list" where
  "watchStringFlags = [flagEnv, flagBuildEnv, flagApihost, flagAuth, flagInclude, flagExclude]"

definition RunServerlessExtraWatch ::
  "env \<Rightarrow> CmdConfig \<Rightarrow> trace \<Rightarrow> error option \<times> CmdConfig \<times> trace" where
  "RunServerlessExtraWatch env c0 tr =
     (let c = adjustIncludeAndExclude c0 in
      case ensureOneArg c of
        Some err \<Rightarrow> (Some err, c, tr)
      | None \<Rightarrow>
         (RunServerlessExecStreaming env tr ''watch'' c watchBoolFlags watchStringFlags, c,
          tr @ [EvExecStreaming ''watch'' (Args c) watchBoolFlags watchStringFlags]))"

subsection \<open>A test environment\<close>

text \<open>
  A concrete environment on which the functions above can be run: the Unix version of
  \<^verbatim>\<open>filepath.Join\<close> (join the elements from the first non-empty one on, then
  \<^verbatim>\<open>filepath.Clean\<close>), lowercasing of ASCII letters, a table of languages, texts
  that stand for the embedded samples and configuration files, an operating system on which
  every call succeeds and the target path does not exist, and a remote host that is not
  connected.
\<close>

fun cleanComponents :: "bool \<Rightarrow> string list \<Rightarrow> string list \<Rightarrow> string list" where
  "cleanComponents rooted [] out = rev out"
| "cleanComponents rooted (name # names) out =
     (if name = [] \<or> name = ''.'' then cleanComponents rooted names out
      else if name = ''..'' then
        (case out of
           [] \<Rightarrow> (if rooted then cleanComponents rooted names out
                  else cleanComponents rooted names [name])
         | last_kept # kept \<Rightarrow>
             (if last_kept = ''..'' then cleanComponents rooted names (name # out)
              else cleanComponents rooted names kept))
      else cleanComponents rooted names (name # out))"

definition unixClean :: "string \<Rightarrow> string" where
  "unixClean path =
     (let rooted = (case path of [] \<Rightarrow> False | c # _ \<Rightarrow> c = CHR ''/'');
          body = Join (cleanComponents rooted (Split path (CHR ''/'')) []) ''/''
      in if rooted then CHR ''/'' # body
         else if body = [] then ''.''
         else body)"

definition unixJoin :: "string list \<Rightarrow> string" where
  "unixJoin elem =
     (case dropWhile (\<lambda>e. e = []) elem of
        [] \<Rightarrow> []
      | e # es \<Rightarrow> unixClean (Join (e # es) ''/''))"

definition asciiLower :: "string \<Rightarrow> string" where
  "asciiLower s =
     map (\<lambda>c. case map_of (zip ''ABCDEFGHIJKLMNOPQRSTUVWXYZ'' ''abcdefghijklmnopqrstuvwxyz'') c of
                 None \<Rightarrow> c | Some l \<Rightarrow> l) s"

fun renderFunctions :: "ServerlessFunction list \<Rightarrow> string" where
  "renderFunctions [] = []"
| "renderFunctions (f # fs) =
     ''    - name: '' @ FuncName f @ ''\<newline>'' @
     ''      runtime: '' @ Runtime f @ ''\<newline>'' @
     ''      web: '' @ (if Web f then ''true'' else ''false'') @ ''\<newline>'' @
     ''      webSecure: '' @ (if WebSecure f then ''true'' else ''false'') @ ''\<newline>'' @
     renderFunctions fs"

fun renderPackages :: "ServerlessPackage list \<Rightarrow> string" where
  "renderPackages [] = []"
| "renderPackages (p # ps) =
     ''  - name: '' @ Name p @ ''\<newline>'' @
     ''    functions:\<newline>'' @ renderFunctions (Functions p) @ renderPackages ps"

definition renderSpec :: "ServerlessSpec \<Rightarrow> string \<times> error option" where
  "renderSpec config = (''packages:\<newline>'' @ renderPackages (Packages config), None)"

definition unreachableHost :: error where
  "unreachableHost = ExternalErr ''serverless support is not connected''"

definition testEnv :: env where
  "testEnv = \<lparr>
     languageKeywords =
       [(''nodejs'', [''javascript'', ''js'', ''typescript'', ''ts'']),
        (''go'', [''go'', ''golang'']),
        (''php'', [''php'']),
        (''python'', [''python'', ''py''])],
     samples =
       [''javascript'' \<mapsto> ''function main(args) { return {body: 1} }'',
        ''typescript'' \<mapsto> ''export function main(args: {}): {} { return {body: 1} }'',
        ''python'' \<mapsto> ''def main(args): return {}'',
        ''go'' \<mapsto> ''func Main(args map[string]interface{}) map[string]interface{}''],
     gitignores = ''.nimbella\<newline>.deployed\<newline>__deployer__.zip\<newline>'',
     ignoreForTypescript = ''node_modules\<newline>lib\<newline>'',
     packageJSONForTypescript = ''{ main: lib/hello.js }'',
     tsconfigJSON = ''{ compilerOptions: { outDir: lib } }'',
     ToLower = asciiLower,
     filepath_Join = unixJoin,
     yaml_Marshal = renderSpec,
     os_Stat = (\<lambda>tr path. StatNotExist (ExternalErr ''no such file or directory'')),
     os_RemoveAll = (\<lambda>tr path. None),
     os_MkdirAll = (\<lambda>tr path. None),
     os_Mkdir = (\<lambda>tr path. None),
     os_WriteFile = (\<lambda>tr path contents. None),
     Fprint = (\<lambda>tr text. None),
     CheckServerlessStatus = (\<lambda>tr. Some unreachableHost),
     ReadCredentials = (\<lambda>tr. (\<lparr>APIHost = []\<rparr>, Some unreachableHost)),
     GetHostInfo = (\<lambda>tr host. (\<lparr>Runtimes = []\<rparr>, Some unreachableHost)),
     ReadProject = (\<lambda>tr project args. (\<lparr>Captured = []\<rparr>, None)),
     RunServerlessExec = (\<lambda>tr cmd c bools strings. (\<lparr>Captured = []\<rparr>, None)),
     RunServerlessExecStreaming = (\<lambda>tr cmd c bools strings. None),
     PrintServerlessTextOutput = (\<lambda>tr output. None)\<rparr>"

text \<open>A command configuration with the given arguments and string options; every other
  string option is the empty string, every boolean option is false but those listed.\<close>

definition testConfig :: "string list \<Rightarrow> (string \<times> string) list \<Rightarrow> string list \<Rightarrow> CmdConfig" where
  "testConfig args strs bools = \<lparr>
     NS = ''serverless'',
     Args = args,
     Doit = \<lparr>
       GetString = (\<lambda>ns key. (case map_of strs key of None \<Rightarrow> [] | Some v \<Rightarrow> v, None)),
       GetBool = (\<lambda>ns key. (key \<in> set bools, None))\<rparr>\<rparr>"

text \<open>The same environment with a remote host that answers: it can be contacted and lists
  the given runtimes.\<close>

definition connectedEnv :: "(string \<times> string list) list \<Rightarrow> env" where
  "connectedEnv runtimes = testEnv\<lparr>
     CheckServerlessStatus := (\<lambda>tr. None),
     ReadCredentials := (\<lambda>tr. (\<lparr>APIHost = ''faas.example.com''\<rparr>, None)),
     GetHostInfo := (\<lambda>tr host. (\<lparr>Runtimes = runtimes\<rparr>, None))\<rparr>"

subsection \<open>Reading a trace\<close>

text \<open>The events that change the file system, and the events that write to the output
  stream of the command.\<close>

fun changesFiles :: "event \<Rightarrow> bool" where
  "changesFiles (EvRemoveAll path) = True"
| "changesFiles (EvMkdirAll path) = True"
| "changesFiles (EvMkdir path) = True"
| "changesFiles (EvWriteFile path contents) = True"
| "changesFiles ev = False"

fun contactsHost :: "event \<Rightarrow> bool" where
  "contactsHost EvCheckServerlessStatus = True"
| "contactsHost EvReadCredentials = True"
| "contactsHost (EvGetHostInfo host) = True"
| "contactsHost ev = False"

fun printsOutput :: "event \<Rightarrow> bool" where
  "printsOutput (EvFprint text) = True"
| "printsOutput (EvPrintServerlessTextOutput output) = True"
| "printsOutput ev = False"

section \<open>Properties\<close>

subsection \<open>Facts about the string functions\<close>

lemma Split_not_Nil: "Split s sep \<noteq> []"
  by (induction s) (auto split: list.splits)

lemma Contains_iff: "Contains s sub \<longleftrightarrow> (\<exists>pre post. s = pre @ sub @ post)"
proof (induction s)
  case Nil
  then show ?case by auto
next
  case (Cons c s)
  show ?case
  proof
    assume "Contains (c # s) sub"
    then consider "prefix sub (c # s)" | "Contains s sub" by auto
    then show "\<exists>pre post. c # s = pre @ sub @ post"
    proof cases
      case 1
      then obtain post where "c # s = sub @ post" by (auto simp: prefix_def)
      then have "c # s = [] @ sub @ post" by simp
      then show ?thesis by blast
    next
      case 2
      then obtain pre post where "s = pre @ sub @ post" using Cons.IH by auto
      then have "c # s = (c # pre) @ sub @ post" by simp
      then show ?thesis by blast
    qed
  next
    assume "\<exists>pre post. c # s = pre @ sub @ post"
    then obtain pre post where eq: "c # s = pre @ sub @ post" by auto
    show "Contains (c # s) sub"
    proof (cases pre)
      case Nil
      then have "prefix sub (c # s)" using eq by (auto simp: prefix_def)
      then show ?thesis by simp
    next
      case (Cons a pre')
      then have "s = pre' @ sub @ post" using eq by simp
      then have "Contains s sub" using Cons.IH by blast
      then show ?thesis by simp
    qed
  qed
qed

lemma Replace1_first:
  "Contains s old \<Longrightarrow>
   \<exists>pre post. s = pre @ old @ post \<and>
     (\<forall>pre' post'. s = pre' @ old @ post' \<longrightarrow> length pre \<le> length pre') \<and>
     Replace1 s old new = pre @ new @ post"
proof (induction s)
  case Nil
  then show ?case by auto
next
  case (Cons c s)
  show ?case
  proof (cases "prefix old (c # s)")
    case True
    then obtain post where p: "c # s = old @ post" by (auto simp: prefix_def)
    have "Replace1 (c # s) old new = new @ drop (length old) (c # s)" using True by simp
    also have "drop (length old) (c # s) = post" by (subst p) simp
    finally have "Replace1 (c # s) old new = [] @ new @ post" by simp
    moreover have "c # s = [] @ old @ post" using p by simp
    ultimately show ?thesis by (metis length_0_conv list.size(3) le0 append_Nil)
  next
    case False
    then have "Contains s old" using Cons.prems by simp
    then obtain pre post where s: "s = pre @ old @ post"
      and r: "Replace1 s old new = pre @ new @ post"
      and m: "\<forall>pre' post'. s = pre' @ old @ post' \<longrightarrow> length pre \<le> length pre'"
      using Cons.IH by blast
    have 1: "c # s = (c # pre) @ old @ post" using s by simp
    have 2: "Replace1 (c # s) old new = (c # pre) @ new @ post" using False r by simp
    have 3: "\<forall>pre' post'. c # s = pre' @ old @ post' \<longrightarrow> length (c # pre) \<le> length pre'"
    proof (intro allI impI)
      fix pre' post' assume e: "c # s = pre' @ old @ post'"
      show "length (c # pre) \<le> length pre'"
      proof (cases pre')
        case Nil
        then have "prefix old (c # s)" using e by (auto simp: prefix_def)
        then show ?thesis using False by simp
      next
        case (Cons a q)
        then have "s = q @ old @ post'" using e by simp
        then have "length pre \<le> length q" using m by blast
        then show ?thesis using Cons by simp
      qed
    qed
    show ?thesis using 1 2 3 by blast
  qed
qed

lemma Split_append: "Split (s @ sep # t) sep = Split s sep @ Split t sep"
  by (induction s) (auto split: list.splits simp: Split_not_Nil)

lemma Split_no_sep: "sep \<notin> set s \<Longrightarrow> Split s sep = [s]"
  by (induction s) auto

lemma Split_tokens: "t \<in> set (Split s sep) \<Longrightarrow> sep \<notin> set t"
  by (induction s arbitrary: t) (auto split: if_splits list.splits)

lemma Split_Join:
  "ts \<noteq> [] \<Longrightarrow> (\<And>t. t \<in> set ts \<Longrightarrow> sep \<notin> set t) \<Longrightarrow> Split (Join ts [sep]) sep = ts"
proof (induction ts "[sep]" rule: Join.induct)
  case 1
  then show ?case by simp
next
  case (2 t)
  then show ?case by (simp add: Split_no_sep)
next
  case (3 t u ts)
  have "Split (Join (t # u # ts) [sep]) sep = Split t sep @ Split (Join (u # ts) [sep]) sep"
    by (simp add: Split_append)
  also have "Split t sep = [t]" using 3(3)[of t] by (simp add: Split_no_sep)
  also have "Split (Join (u # ts) [sep]) sep = u # ts" using 3 by simp
  finally show ?case by simp
qed

lemma qualifyTokens_map:
  "qualifyTokens ts = map (\<lambda>t. if t = ''web'' then ''web/'' else t) ts"
  by (induction ts) auto


subsection \<open>The deploy transcript\<close>

lemma fixupCaptured_map: "fixupCaptured ls = map fixupLine ls"
  by (induction ls) auto

text \<open>
  Claim C4, as amended. The rewriting of the transcript works line by line: the line stored
  at an index is \<open>fixupLine\<close> of the line read there, whatever the other lines are.
  A line that contains \<^verbatim>\<open>Deploying project\<close> has the first occurrence of that marker
  replaced by \<^verbatim>\<open>Deployed\<close> and is otherwise kept. A line that does not contain
  \<^verbatim>\<open>Deploying project\<close> and contains \<^verbatim>\<open>Deployed actions\<close> becomes the fixed
  branded line. A line that contains neither marker is unchanged.
\<close>

theorem fixupCaptured_line_by_line:
  "fixupCaptured ls = map fixupLine ls \<and>
   (Contains l ''Deploying project'' \<longrightarrow>
      (\<exists>pre post. l = pre @ ''Deploying project'' @ post \<and>
         (\<forall>pre' post'. l = pre' @ ''Deploying project'' @ post' \<longrightarrow> length pre \<le> length pre') \<and>
         fixupLine l = pre @ ''Deployed'' @ post)) \<and>
   (\<not> Contains l ''Deploying project'' \<and> Contains l ''Deployed actions'' \<longrightarrow>
      fixupLine l = brandedDeployed) \<and>
   (\<not> Contains l ''Deploying project'' \<and> \<not> Contains l ''Deployed actions'' \<longrightarrow>
      fixupLine l = l)"
proof (intro conjI impI)
  show "fixupCaptured ls = map fixupLine ls" by (rule fixupCaptured_map)
next
  assume c: "Contains l ''Deploying project''"
  then have "fixupLine l = Replace1 l ''Deploying project'' ''Deployed''"
    by (simp only: fixupLine_def if_True)
  then show "\<exists>pre post. l = pre @ ''Deploying project'' @ post \<and>
         (\<forall>pre' post'. l = pre' @ ''Deploying project'' @ post' \<longrightarrow> length pre \<le> length pre') \<and>
         fixupLine l = pre @ ''Deployed'' @ post"
    using Replace1_first [OF c, of "''Deployed''"] by (simp only:)
next
  assume "\<not> Contains l ''Deploying project'' \<and> Contains l ''Deployed actions''"
  then show "fixupLine l = brandedDeployed" by (simp only: fixupLine_def if_True if_False)
next
  assume "\<not> Contains l ''Deploying project'' \<and> \<not> Contains l ''Deployed actions''"
  then show "fixupLine l = l" by (simp only: fixupLine_def if_False)
qed

text \<open>
  Claim C4 as it is written says that every line containing \<^verbatim>\<open>Deployed actions\<close> is
  replaced by the branded line. The second test of the loop is an \<^verbatim>\<open>else if\<close>: a
  line that contains both markers only has its first marker rewritten.
\<close>

theorem fixupLine_both_markers_counterexample:
  "Contains ''Deploying project Deployed actions'' ''Deployed actions'' \<and>
   fixupCaptured [''Deploying project Deployed actions''] = [''Deployed Deployed actions''] \<and>
   fixupCaptured [''Deploying project Deployed actions''] \<noteq> [brandedDeployed]"
  by (simp add: fixupLine_def brandedDeployed_def)

text \<open>A transcript of three lines, one for each case.\<close>

theorem fixupCaptured_line_by_line_witness:
  "Contains ''Deploying project /tmp/p'' ''Deploying project'' \<and>
   fixupLine ''Deploying project /tmp/p'' = ''Deployed /tmp/p'' \<and>
   \<not> Contains ''Deployed actions:'' ''Deploying project'' \<and>
   Contains ''Deployed actions:'' ''Deployed actions'' \<and>
   fixupLine ''Deployed actions:'' = brandedDeployed \<and>
   \<not> Contains ''Skipped web'' ''Deploying project'' \<and>
   \<not> Contains ''Skipped web'' ''Deployed actions'' \<and>
   fixupLine ''Skipped web'' = ''Skipped web'' \<and>
   fixupCaptured [''Deploying project /tmp/p'', ''Deployed actions:'', ''Skipped web''] =
     [''Deployed /tmp/p'', brandedDeployed, ''Skipped web'']"
proof -
  have a: "Contains ''Deploying project /tmp/p'' ''Deploying project''" by simp
  have b: "\<not> Contains ''Deployed actions:'' ''Deploying project'' \<and>
           Contains ''Deployed actions:'' ''Deployed actions''" by simp
  have c: "\<not> Contains ''Skipped web'' ''Deploying project'' \<and>
           \<not> Contains ''Skipped web'' ''Deployed actions''" by simp
  from fixupCaptured_line_by_line [of "[]" "''Deploying project /tmp/p''"] a
  obtain pre post where eq: "''Deploying project /tmp/p'' = pre @ ''Deploying project'' @ post"
    and least: "\<forall>pre' post'. ''Deploying project /tmp/p'' = pre' @ ''Deploying project'' @ post'
                  \<longrightarrow> length pre \<le> length pre'"
    and res: "fixupLine ''Deploying project /tmp/p'' = pre @ ''Deployed'' @ post"
    by blast
  have "''Deploying project /tmp/p'' = [] @ ''Deploying project'' @ '' /tmp/p''" by simp
  with least have "length pre \<le> length ([] :: string)" by blast
  then have pre: "pre = []" by simp
  with eq have post: "post = '' /tmp/p''" by simp
  have 1: "fixupLine ''Deploying project /tmp/p'' = ''Deployed /tmp/p''"
    using res pre post by simp
  have 2: "fixupLine ''Deployed actions:'' = brandedDeployed"
    using fixupCaptured_line_by_line [of "[]" "''Deployed actions:''"] b by blast
  have 3: "fixupLine ''Skipped web'' = ''Skipped web''"
    using fixupCaptured_line_by_line [of "[]" "''Skipped web''"] c by blast
  have 4: "fixupCaptured [''Deploying project /tmp/p'', ''Deployed actions:'', ''Skipped web''] =
     map fixupLine [''Deploying project /tmp/p'', ''Deployed actions:'', ''Skipped web'']"
    using fixupCaptured_line_by_line [of "[''Deploying project /tmp/p'', ''Deployed actions:'', ''Skipped web'']" "[]"]
    by blast
  show ?thesis using a b c 1 2 3 4 by (simp only: list.map) simp
qed

subsection \<open>The include and exclude normalizer\<close>

lemma Split_qualifyWebWithSlash:
  "Split (qualifyWebWithSlash s) (CHR '','') =
     map (\<lambda>t. if t = ''web'' then ''web/'' else t) (Split s (CHR '',''))"
proof -
  let ?q = "\<lambda>t. if t = ''web'' then ''web/'' else t"
  have ne: "map ?q (Split s (CHR '','')) \<noteq> []" by (simp add: Split_not_Nil)
  have nc: "CHR '','' \<notin> set t" if "t \<in> set (map ?q (Split s (CHR '','')))" for t
  proof -
    from that obtain u where u: "u \<in> set (Split s (CHR '',''))" and t: "t = ?q u" by auto
    show ?thesis
    proof (cases "u = ''web''")
      case True
      then show ?thesis using t by simp
    next
      case False
      then show ?thesis using t u Split_tokens by auto
    qed
  qed
  have "Split (Join (map ?q (Split s (CHR '',''))) [CHR '','']) (CHR '','') = map ?q (Split s (CHR '',''))"
    using ne nc by (rule Split_Join)
  then show ?thesis by (simp add: qualifyWebWithSlash_def qualifyTokens_map)
qed

text \<open>
  Claim C3. Let \<^verbatim>\<open>GetString\<close> answer \<open>(excl, eerr)\<close> for the exclude option and
  \<open>(incl, ierr)\<close> for the include option. After \<^verbatim>\<open>adjustIncludeAndExclude\<close>:
  when the exclude option is unset or empty (or cannot be read) it is exactly
  \<^verbatim>\<open>web\<close>; when it holds a non-empty list, the new value is the old list with every
  token equal to \<^verbatim>\<open>web\<close> turned into \<^verbatim>\<open>web/\<close>, in the same order, followed by
  one more entry \<^verbatim>\<open>web\<close> (this is stated both for the string and for its tokens);
  a non-empty include option gets the token rewrite only, and an empty or unreadable one is
  left as it is.
\<close>

theorem adjustIncludeAndExclude_normalizes:
  "GetString (Doit c) (NS c) flagExclude = (excl, eerr) \<Longrightarrow>
   GetString (Doit c) (NS c) flagInclude = (incl, ierr) \<Longrightarrow>
   (let c1 = adjustIncludeAndExclude c;
        q = (\<lambda>t. if t = ''web'' then ''web/'' else t);
        excl1 = GetString (Doit c1) (NS c) flagExclude;
        incl1 = GetString (Doit c1) (NS c) flagInclude
    in NS c1 = NS c \<and>
       (eerr \<noteq> None \<or> excl = [] \<longrightarrow> excl1 = (''web'', None)) \<and>
       (eerr = None \<and> excl \<noteq> [] \<longrightarrow>
          excl1 = (Join (map q (Split excl (CHR '',''))) '','' @ '',web'', None) \<and>
          Split (fst excl1) (CHR '','') = map q (Split excl (CHR '','')) @ [''web'']) \<and>
       (ierr = None \<and> incl \<noteq> [] \<longrightarrow>
          incl1 = (Join (map q (Split incl (CHR '',''))) '','', None) \<and>
          Split (fst incl1) (CHR '','') = map q (Split incl (CHR '',''))) \<and>
       (ierr \<noteq> None \<or> incl = [] \<longrightarrow> incl1 = (incl, ierr)))"
proof -
  assume e: "GetString (Doit c) (NS c) flagExclude = (excl, eerr)"
    and i: "GetString (Doit c) (NS c) flagInclude = (incl, ierr)"
  have ne: "flagInclude \<noteq> flagExclude" by (simp add: flagInclude_def flagExclude_def)
  have sp: "Split (qualifyWebWithSlash excl @ '',web'') (CHR '','') =
            map (\<lambda>t. if t = ''web'' then ''web/'' else t) (Split excl (CHR '','')) @ [''web'']"
  proof -
    have "qualifyWebWithSlash excl @ '',web'' = qualifyWebWithSlash excl @ CHR '','' # ''web''"
      by simp
    then show ?thesis
      by (simp only: Split_append Split_qualifyWebWithSlash) (simp add: Split_no_sep)
  qed
  have jq: "\<And>s. Join (map (\<lambda>t. if t = ''web'' then ''web/'' else t) (Split s (CHR '',''))) '','' =
            qualifyWebWithSlash s"
    by (simp add: qualifyWebWithSlash_def qualifyTokens_map)
  show ?thesis
    using e i ne sp Split_qualifyWebWithSlash [of incl]
    by (auto simp: adjustIncludeAndExclude_def Set_def Let_def keywordWeb_def jq
             simp del: Split.simps)
qed


text \<open>The examples of the specification: \<^verbatim>\<open>foo,web\<close> becomes
  \<^verbatim>\<open>foo,web/,web\<close>, and an unset exclude option becomes \<^verbatim>\<open>web\<close>.\<close>

theorem adjustIncludeAndExclude_normalizes_witness:
  "GetString (Doit (testConfig [] [(''exclude'', ''foo,web''), (''include'', ''web,lib'')] []))
     ''serverless'' flagExclude = (''foo,web'', None) \<and>
   GetString (Doit (adjustIncludeAndExclude
       (testConfig [] [(''exclude'', ''foo,web''), (''include'', ''web,lib'')] [])))
     ''serverless'' flagExclude = (''foo,web/,web'', None) \<and>
   GetString (Doit (adjustIncludeAndExclude
       (testConfig [] [(''exclude'', ''foo,web''), (''include'', ''web,lib'')] [])))
     ''serverless'' flagInclude = (''web/,lib'', None) \<and>
   GetString (Doit (testConfig [] [] [])) ''serverless'' flagExclude = ([], None) \<and>
   GetString (Doit (adjustIncludeAndExclude (testConfig [] [] [])))
     ''serverless'' flagExclude = (''web'', None) \<and>
   GetString (Doit (adjustIncludeAndExclude (testConfig [] [] [])))
     ''serverless'' flagInclude = ([], None)"
proof -
  let ?c = "testConfig [] [(''exclude'', ''foo,web''), (''include'', ''web,lib'')] []"
  let ?d = "testConfig [] [] []"
  have ns: "NS ?c = ''serverless''" "NS ?d = ''serverless''" by (simp_all add: testConfig_def)
  have c1: "GetString (Doit ?c) (NS ?c) flagExclude = (''foo,web'', None)"
    by (simp add: testConfig_def flagExclude_def)
  have c2: "GetString (Doit ?c) (NS ?c) flagInclude = (''web,lib'', None)"
    by (simp add: testConfig_def flagInclude_def)
  have d1: "GetString (Doit ?d) (NS ?d) flagExclude = ([], None)"
    by (simp add: testConfig_def)
  have d2: "GetString (Doit ?d) (NS ?d) flagInclude = ([], None)"
    by (simp add: testConfig_def)
  from adjustIncludeAndExclude_normalizes [OF c1 c2] adjustIncludeAndExclude_normalizes [OF d1 d2] c1 d1
  show ?thesis by (simp add: Let_def ns)
qed

subsection \<open>The language resolver\<close>

lemma runtimeListed_iff: "runtimeListed runtime rs \<longleftrightarrow> runtime \<in> fst ` set rs"
  by (induction rs) auto

lemma validateRuntime_trace:
  "\<exists>evs. snd (validateRuntime env tr runtime) = tr @ evs \<and> filter (\<lambda>e. \<not> contactsHost e) evs = []"
  by (auto simp: validateRuntime_def Let_def split: option.splits prod.splits)

text \<open>
  Claim C5. \<^verbatim>\<open>validateRuntime\<close> accepts \<^verbatim>\<open>nodejs\<close> and leaves the trace as it
  was: no call reaches the remote host. For every other runtime, a failure of the status
  check, of the reading of the credentials or of the fetching of the host information gives
  \<^term>\<open>True\<close>. The result is \<^term>\<open>False\<close> exactly when the runtime is not
  \<^verbatim>\<open>nodejs\<close>, the three calls succeed, and the runtime is not among the keys of the
  runtimes that the host lists.
\<close>

theorem validateRuntime_permissive:
  "validateRuntime env tr ''nodejs'' = (True, tr) \<and>
   (runtime \<noteq> ''nodejs'' \<longrightarrow>
      (CheckServerlessStatus env tr \<noteq> None \<longrightarrow> fst (validateRuntime env tr runtime)) \<and>
      (snd (ReadCredentials env (tr @ [EvCheckServerlessStatus])) \<noteq> None \<longrightarrow>
         fst (validateRuntime env tr runtime)) \<and>
      (snd (GetHostInfo env (tr @ [EvCheckServerlessStatus, EvReadCredentials])
              (APIHost (fst (ReadCredentials env (tr @ [EvCheckServerlessStatus]))))) \<noteq> None \<longrightarrow>
         fst (validateRuntime env tr runtime))) \<and>
   (\<not> fst (validateRuntime env tr runtime) \<longleftrightarrow>
      runtime \<noteq> ''nodejs'' \<and>
      CheckServerlessStatus env tr = None \<and>
      (\<exists>creds info.
         ReadCredentials env (tr @ [EvCheckServerlessStatus]) = (creds, None) \<and>
         GetHostInfo env (tr @ [EvCheckServerlessStatus, EvReadCredentials]) (APIHost creds) =
           (info, None) \<and>
         runtime \<notin> fst ` set (Runtimes info)))"
  by (auto simp: validateRuntime_def Let_def runtimeListed_iff split: option.splits prod.splits)

text \<open>A host that cannot be reached accepts \<^verbatim>\<open>go\<close>; a host that lists
  \<^verbatim>\<open>go\<close> and \<^verbatim>\<open>python\<close> rejects \<^verbatim>\<open>php\<close> and accepts
  \<^verbatim>\<open>python\<close>.\<close>

theorem validateRuntime_permissive_witness:
  "validateRuntime testEnv [] ''nodejs'' = (True, []) \<and>
   ''go'' \<noteq> ''nodejs'' \<and> CheckServerlessStatus testEnv [] \<noteq> None \<and>
   fst (validateRuntime testEnv [] ''go'') \<and>
   CheckServerlessStatus (connectedEnv [(''go'', [''1.17'']), (''python'', [''3.9''])]) [] = None \<and>
   ''php'' \<notin> fst ` set [(''go'', [''1.17'']), (''python'', [''3.9''])] \<and>
   \<not> fst (validateRuntime (connectedEnv [(''go'', [''1.17'']), (''python'', [''3.9''])]) [] ''php'') \<and>
   fst (validateRuntime (connectedEnv [(''go'', [''1.17'']), (''python'', [''3.9''])]) [] ''python'')"
proof -
  let ?e = "connectedEnv [(''go'', [''1.17'']), (''python'', [''3.9''])]"
  have a: "''go'' \<noteq> ''nodejs''" by simp
  have b: "CheckServerlessStatus testEnv [] \<noteq> None" by (simp add: testEnv_def)
  have c: "CheckServerlessStatus ?e [] = None" by (simp add: connectedEnv_def testEnv_def)
  have d: "ReadCredentials ?e ([] @ [EvCheckServerlessStatus]) = (\<lparr>APIHost = ''faas.example.com''\<rparr>, None)"
    by (simp add: connectedEnv_def testEnv_def)
  have e: "GetHostInfo ?e ([] @ [EvCheckServerlessStatus, EvReadCredentials]) ''faas.example.com'' =
             (\<lparr>Runtimes = [(''go'', [''1.17'']), (''python'', [''3.9''])]\<rparr>, None)"
    by (simp add: connectedEnv_def testEnv_def)
  have 1: "validateRuntime testEnv [] ''nodejs'' = (True, [])"
    using validateRuntime_permissive [of testEnv "[]" "''go''"] by blast
  have 2: "fst (validateRuntime testEnv [] ''go'')"
    using validateRuntime_permissive [of testEnv "[]" "''go''"] a b by blast
  have 3: "\<not> fst (validateRuntime ?e [] ''php'')"
    using validateRuntime_permissive [of ?e "[]" "''php''"] c d e by simp
  have 4: "fst (validateRuntime ?e [] ''python'')"
    using validateRuntime_permissive [of ?e "[]" "''python''"] c d e by simp
  show ?thesis using 1 2 3 4 a b c by simp
qed

lemma isValidLanguage_loop_no_alias:
  "\<forall>kwds \<in> snd ` set table. language \<notin> set kwds \<Longrightarrow>
   isValidLanguage_loop env tr language table = (False, tr)"
  by (induction table) auto

lemma isValidLanguage_loop_trace:
  "\<exists>evs. snd (isValidLanguage_loop env tr language table) = tr @ evs \<and>
         filter (\<lambda>e. \<not> contactsHost e) evs = []"
proof (induction table)
  case Nil
  then show ?case by simp
next
  case (Cons a table)
  obtain runtime kwds where a: "a = (runtime, kwds)" by (cases a)
  show ?case using Cons validateRuntime_trace [of env tr runtime] by (simp add: a)
qed

lemma languageToKindAndSample_trace:
  "\<exists>evs. snd (languageToKindAndSample env tr language) = tr @ evs \<and>
         filter (\<lambda>e. \<not> contactsHost e) evs = []"
proof -
  have "snd (languageToKindAndSample env tr language) =
        snd (isValidLanguage_loop env tr (ToLower env language) (languageKeywords env))"
    by (simp add: languageToKindAndSample_def isValidLanguage_def Let_def split_def)
  then show ?thesis
    using isValidLanguage_loop_trace [of env tr "ToLower env language" "languageKeywords env"]
    by simp
qed

text \<open>
  Claim C6. When the lowercased language token is among the keywords of no entry of the table
  \<^verbatim>\<open>languageKeywords\<close>, \<^verbatim>\<open>languageToKindAndSample\<close> returns the error
  \<^verbatim>\<open><token> is not a supported language\<close> with the lowercased token, and the trace is
  unchanged: nothing has been asked of the remote host. \<^verbatim>\<open>init\<close>, called with one
  positional argument and that language, returns the same error with the trace it was
  given: no directory has been looked at, removed or made, and no file written.
\<close>

theorem unsupported_language_rejected:
  "ToLower env language \<notin> set (concat (map snd (languageKeywords env))) \<Longrightarrow>
   languageToKindAndSample env tr language =
     ((([], [], False), Some (Errorf (ToLower env language @ '' is not a supported language''))), tr) \<and>
   (length (Args c) = 1 \<and> fst (GetString (Doit c) (NS c) ''language'') = language \<longrightarrow>
      RunServerlessExtraCreate env c tr =
        (Err (Errorf (ToLower env language @ '' is not a supported language'')), tr))"
proof -
  assume "ToLower env language \<notin> set (concat (map snd (languageKeywords env)))"
  then have h: "\<forall>kwds \<in> snd ` set (languageKeywords env). ToLower env language \<notin> set kwds"
    by auto
  have v: "isValidLanguage env tr (ToLower env language) = (False, tr)"
    unfolding isValidLanguage_def using h by (rule isValidLanguage_loop_no_alias)
  have l: "languageToKindAndSample env tr language =
     ((([], [], False), Some (Errorf (ToLower env language @ '' is not a supported language''))), tr)"
    by (simp add: languageToKindAndSample_def Let_def v)
  show ?thesis
  proof (intro conjI impI)
    show "languageToKindAndSample env tr language =
     ((([], [], False), Some (Errorf (ToLower env language @ '' is not a supported language''))), tr)"
      by (rule l)
  next
    assume a: "length (Args c) = 1 \<and> fst (GetString (Doit c) (NS c) ''language'') = language"
    then obtain project where p: "Args c = [project]" by (cases "Args c") auto
    from a have g: "fst (GetString (Doit c) (NS c) ''language'') = language" by simp
    show "RunServerlessExtraCreate env c tr =
        (Err (Errorf (ToLower env language @ '' is not a supported language'')), tr)"
      using l by (simp add: RunServerlessExtraCreate_def ensureOneArg_def p split_def g)
  qed
qed

text \<open>The language \<^verbatim>\<open>COBOL\<close> with the table of the test environment.\<close>

theorem unsupported_language_rejected_witness:
  "ToLower testEnv ''COBOL'' = ''cobol'' \<and>
   ''cobol'' \<notin> set (concat (map snd (languageKeywords testEnv))) \<and>
   languageToKindAndSample testEnv [] ''COBOL'' =
     ((([], [], False), Some (Errorf ''cobol is not a supported language'')), []) \<and>
   RunServerlessExtraCreate testEnv (testConfig [''./proj''] [(''language'', ''COBOL'')] []) [] =
     (Err (Errorf ''cobol is not a supported language''), [])"
proof -
  let ?c = "testConfig [''./proj''] [(''language'', ''COBOL'')] []"
  have lw: "ToLower testEnv ''COBOL'' = ''cobol''" by (simp add: testEnv_def asciiLower_def)
  have k: "''cobol'' \<notin> set (concat (map snd (languageKeywords testEnv)))"
    by (simp add: testEnv_def)
  then have h: "ToLower testEnv ''COBOL'' \<notin> set (concat (map snd (languageKeywords testEnv)))"
    unfolding lw .
  have a: "length (Args ?c) = 1 \<and> fst (GetString (Doit ?c) (NS ?c) ''language'') = ''COBOL''"
    by (simp add: testConfig_def)
  from unsupported_language_rejected [OF h, of "[]" ?c] a k show ?thesis by (simp add: lw)
qed

subsection \<open>Deploy, get-metadata and watch\<close>

lemma Join_Split: "Join (Split s sep) [sep] = s"
proof (induction s)
  case Nil
  then show ?case by simp
next
  case (Cons c s)
  obtain t ts where sp: "Split s sep = t # ts" using Split_not_Nil [of s sep] by (cases "Split s sep") auto
  show ?case using Cons sp by (cases ts) auto
qed

lemma length_Join_qualifyTokens: "length (Join ts sep) \<le> length (Join (qualifyTokens ts) sep)"
  by (induction ts sep rule: Join.induct) auto

lemma length_qualifyWebWithSlash: "length s \<le> length (qualifyWebWithSlash s)"
proof -
  have "length (Join (Split s (CHR '','')) '','') \<le> length (qualifyWebWithSlash s)"
    unfolding qualifyWebWithSlash_def by (rule length_Join_qualifyTokens)
  then show ?thesis using Join_Split [of s "CHR '',''"] by simp
qed

lemma adjustIncludeAndExclude_Args: "Args (adjustIncludeAndExclude c) = Args c"
  by (simp add: adjustIncludeAndExclude_def Let_def split_def)

lemma adjustIncludeAndExclude_NS: "NS (adjustIncludeAndExclude c) = NS c"
  by (simp add: adjustIncludeAndExclude_def Let_def split_def)

lemma adjustIncludeAndExclude_exclude:
  "GetString (Doit (adjustIncludeAndExclude c)) (NS c) flagExclude =
     (if snd (GetString (Doit c) (NS c) flagExclude) = None \<and>
         fst (GetString (Doit c) (NS c) flagExclude) \<noteq> []
      then (qualifyWebWithSlash (fst (GetString (Doit c) (NS c) flagExclude)) @ '',web'', None)
      else (''web'', None))"
proof -
  have ne: "flagInclude \<noteq> flagExclude" by (simp add: flagInclude_def flagExclude_def)
  show ?thesis using ne
    by (simp add: adjustIncludeAndExclude_def Set_def Let_def split_def keywordWeb_def)
qed

text \<open>
  Claim C10. In \<^verbatim>\<open>RunServerlessExtraDeploy\<close>, \<^verbatim>\<open>RunServerlessExtraGetMetadata\<close> and
  \<^verbatim>\<open>RunServerlessExtraWatch\<close> the configuration that the command leaves behind is
  always the normalized one. When the number of positional arguments is not one, each of
  the three returns the missing-arguments error without any call to the backend (the trace
  is unchanged), and the configuration is the normalized one all the same. In it the
  exclude option is readable, is \<^verbatim>\<open>web\<close> or ends with the entry \<^verbatim>\<open>,web\<close>, and
  differs from what \<^verbatim>\<open>GetString\<close> answered before the command: the error path has
  changed the options.
\<close>

theorem normalization_precedes_argument_check:
  "fst (snd (RunServerlessExtraDeploy env c tr)) = adjustIncludeAndExclude c \<and>
   fst (snd (RunServerlessExtraGetMetadata env c tr)) = adjustIncludeAndExclude c \<and>
   fst (snd (RunServerlessExtraWatch env c tr)) = adjustIncludeAndExclude c \<and>
   (length (Args c) \<noteq> 1 \<longrightarrow>
      RunServerlessExtraDeploy env c tr =
        (Some (MissingArgsErr (NS c)), adjustIncludeAndExclude c, tr) \<and>
      RunServerlessExtraGetMetadata env c tr =
        (Err (MissingArgsErr (NS c)), adjustIncludeAndExclude c, tr) \<and>
      RunServerlessExtraWatch env c tr =
        (Some (MissingArgsErr (NS c)), adjustIncludeAndExclude c, tr)) \<and>
   snd (GetString (Doit (adjustIncludeAndExclude c)) (NS c) flagExclude) = None \<and>
   (fst (GetString (Doit (adjustIncludeAndExclude c)) (NS c) flagExclude) = ''web'' \<or>
    (\<exists>list. fst (GetString (Doit (adjustIncludeAndExclude c)) (NS c) flagExclude) =
              list @ '',web'')) \<and>
   GetString (Doit (adjustIncludeAndExclude c)) (NS c) flagExclude \<noteq>
     GetString (Doit c) (NS c) flagExclude"
proof -
  have d: "fst (snd (RunServerlessExtraDeploy env c tr)) = adjustIncludeAndExclude c"
    by (simp add: RunServerlessExtraDeploy_def Let_def split_def split: option.splits)
  have m: "fst (snd (RunServerlessExtraGetMetadata env c tr)) = adjustIncludeAndExclude c"
    by (simp add: RunServerlessExtraGetMetadata_def Let_def split_def
             split: option.splits list.splits)
  have w: "fst (snd (RunServerlessExtraWatch env c tr)) = adjustIncludeAndExclude c"
    by (simp add: RunServerlessExtraWatch_def Let_def split: option.splits)
  have e: "length (Args c) \<noteq> 1 \<longrightarrow>
      RunServerlessExtraDeploy env c tr =
        (Some (MissingArgsErr (NS c)), adjustIncludeAndExclude c, tr) \<and>
      RunServerlessExtraGetMetadata env c tr =
        (Err (MissingArgsErr (NS c)), adjustIncludeAndExclude c, tr) \<and>
      RunServerlessExtraWatch env c tr =
        (Some (MissingArgsErr (NS c)), adjustIncludeAndExclude c, tr)"
    by (simp add: RunServerlessExtraDeploy_def RunServerlessExtraGetMetadata_def
          RunServerlessExtraWatch_def Let_def ensureOneArg_def
          adjustIncludeAndExclude_Args adjustIncludeAndExclude_NS)
  obtain excl eerr where g: "GetString (Doit c) (NS c) flagExclude = (excl, eerr)"
    by (cases "GetString (Doit c) (NS c) flagExclude")
  have x: "snd (GetString (Doit (adjustIncludeAndExclude c)) (NS c) flagExclude) = None"
    by (simp add: adjustIncludeAndExclude_exclude)
  have y: "fst (GetString (Doit (adjustIncludeAndExclude c)) (NS c) flagExclude) = ''web'' \<or>
    (\<exists>list. fst (GetString (Doit (adjustIncludeAndExclude c)) (NS c) flagExclude) =
              list @ '',web'')"
    by (simp add: adjustIncludeAndExclude_exclude)
  have z: "GetString (Doit (adjustIncludeAndExclude c)) (NS c) flagExclude \<noteq>
     GetString (Doit c) (NS c) flagExclude"
  proof (cases "eerr = None \<and> excl \<noteq> []")
    case True
    have "length excl < length (qualifyWebWithSlash excl @ '',web'')"
      using length_qualifyWebWithSlash [of excl] by simp
    then have "length (qualifyWebWithSlash excl @ '',web'') \<noteq> length excl" by simp
    then have "qualifyWebWithSlash excl @ '',web'' \<noteq> excl" by metis
    then show ?thesis using True g by (simp add: adjustIncludeAndExclude_exclude)
  next
    case False
    then show ?thesis using g by (auto simp: adjustIncludeAndExclude_exclude)
  qed
  show ?thesis using d m w e x y z by blast
qed

text \<open>No positional argument and \<^verbatim>\<open>--exclude lib\<close>: the three commands fail, and the
  exclude option has become \<^verbatim>\<open>lib,web\<close>.\<close>

theorem normalization_precedes_argument_check_witness:
  "length (Args (testConfig [] [(''exclude'', ''lib'')] [])) \<noteq> 1 \<and>
   fst (RunServerlessExtraDeploy testEnv (testConfig [] [(''exclude'', ''lib'')] []) []) =
     Some (MissingArgsErr ''serverless'') \<and>
   fst (RunServerlessExtraGetMetadata testEnv (testConfig [] [(''exclude'', ''lib'')] []) []) =
     Err (MissingArgsErr ''serverless'') \<and>
   fst (RunServerlessExtraWatch testEnv (testConfig [] [(''exclude'', ''lib'')] []) []) =
     Some (MissingArgsErr ''serverless'') \<and>
   GetString (Doit (testConfig [] [(''exclude'', ''lib'')] [])) ''serverless'' flagExclude =
     (''lib'', None) \<and>
   GetString (Doit (fst (snd (RunServerlessExtraDeploy testEnv
       (testConfig [] [(''exclude'', ''lib'')] []) [])))) ''serverless'' flagExclude =
     (''lib,web'', None)"
proof -
  let ?c = "testConfig [] [(''exclude'', ''lib'')] []"
  have a: "length (Args ?c) \<noteq> 1" by (simp add: testConfig_def)
  have n: "NS ?c = ''serverless''" by (simp add: testConfig_def)
  have g: "GetString (Doit ?c) ''serverless'' flagExclude = (''lib'', None)"
    by (simp add: testConfig_def flagExclude_def)
  have v: "GetString (Doit (adjustIncludeAndExclude ?c)) ''serverless'' flagExclude =
             (''lib,web'', None)"
    using adjustIncludeAndExclude_exclude [of ?c] g
    by (simp add: n qualifyWebWithSlash_def)
  from normalization_precedes_argument_check [of testEnv ?c "[]"] a
  have "RunServerlessExtraDeploy testEnv ?c [] =
          (Some (MissingArgsErr (NS ?c)), adjustIncludeAndExclude ?c, []) \<and>
        RunServerlessExtraGetMetadata testEnv ?c [] =
          (Err (MissingArgsErr (NS ?c)), adjustIncludeAndExclude ?c, []) \<and>
        RunServerlessExtraWatch testEnv ?c [] =
          (Some (MissingArgsErr (NS ?c)), adjustIncludeAndExclude ?c, [])"
    by blast
  then show ?thesis using a g v by (simp add: n)
qed

text \<open>
  Claim C2. Let the backend answer the deploy with \<open>output\<close> and \<open>err\<close> (the command
  has one positional argument, so the backend is called). If there is an error and the
  transcript is empty, \<^verbatim>\<open>RunServerlessExtraDeploy\<close> returns that error and the only
  event is the call of the backend: nothing is printed. If there is an error and the
  transcript is not empty, the rewritten transcript, joined by newlines and ended by a
  newline, is written to the output stream, and the error of the backend is returned,
  whatever the write answers. If there is no error, the output with the rewritten
  transcript is handed to \<^verbatim>\<open>PrintServerlessTextOutput\<close>, whose result is returned.
\<close>

theorem deploy_error_policy:
  "length (Args c) = 1 \<Longrightarrow>
   RunServerlessExec env tr ''deploy'' (adjustIncludeAndExclude c)
     deployBoolFlags deployStringFlags = (output, err) \<Longrightarrow>
   (let c1 = adjustIncludeAndExclude c;
        tr1 = tr @ [EvExec ''deploy'' (Args c) deployBoolFlags deployStringFlags];
        output1 = output\<lparr>Captured := fixupCaptured (Captured output)\<rparr>;
        transcript = Join (fixupCaptured (Captured output)) ''\<newline>'' @ ''\<newline>''
    in (err \<noteq> None \<and> Captured output = [] \<longrightarrow>
          RunServerlessExtraDeploy env c tr = (err, c1, tr1) \<and>
          filter printsOutput [EvExec ''deploy'' (Args c) deployBoolFlags deployStringFlags] = []) \<and>
       (err \<noteq> None \<and> Captured output \<noteq> [] \<longrightarrow>
          RunServerlessExtraDeploy env c tr = (err, c1, tr1 @ [EvFprint transcript])) \<and>
       (err = None \<longrightarrow>
          RunServerlessExtraDeploy env c tr =
            (PrintServerlessTextOutput env tr1 output1, c1,
             tr1 @ [EvPrintServerlessTextOutput output1])))"
  by (simp add: RunServerlessExtraDeploy_def Let_def ensureOneArg_def
        adjustIncludeAndExclude_Args)

text \<open>Three backends: an error without transcript, an error with a transcript on an output
  stream that fails, and a successful deploy.\<close>

theorem deploy_error_policy_witness:
  "fst (RunServerlessExtraDeploy
          (testEnv\<lparr>RunServerlessExec := (\<lambda>tr cmd c bools strs.
              (\<lparr>Captured = []\<rparr>, Some (ExternalErr ''not connected'')))\<rparr>)
          (testConfig [''/tmp/p''] [] []) []) = Some (ExternalErr ''not connected'') \<and>
   snd (snd (RunServerlessExtraDeploy
          (testEnv\<lparr>RunServerlessExec := (\<lambda>tr cmd c bools strs.
              (\<lparr>Captured = []\<rparr>, Some (ExternalErr ''not connected'')))\<rparr>)
          (testConfig [''/tmp/p''] [] []) [])) =
     [EvExec ''deploy'' [''/tmp/p''] deployBoolFlags deployStringFlags] \<and>
   fst (RunServerlessExtraDeploy
          (testEnv\<lparr>RunServerlessExec := (\<lambda>tr cmd c bools strs.
              (\<lparr>Captured = [''Deploying project /tmp/p'', ''build failed'']\<rparr>,
               Some (ExternalErr ''deploy failed''))),
            Fprint := (\<lambda>tr text. Some (ExternalErr ''broken pipe''))\<rparr>)
          (testConfig [''/tmp/p''] [] []) []) = Some (ExternalErr ''deploy failed'') \<and>
   snd (snd (RunServerlessExtraDeploy
          (testEnv\<lparr>RunServerlessExec := (\<lambda>tr cmd c bools strs.
              (\<lparr>Captured = [''Deploying project /tmp/p'', ''build failed'']\<rparr>,
               Some (ExternalErr ''deploy failed''))),
            Fprint := (\<lambda>tr text. Some (ExternalErr ''broken pipe''))\<rparr>)
          (testConfig [''/tmp/p''] [] []) [])) =
     [EvExec ''deploy'' [''/tmp/p''] deployBoolFlags deployStringFlags,
      EvFprint ''Deployed /tmp/p\<newline>build failed\<newline>''] \<and>
   fst (RunServerlessExtraDeploy
          (testEnv\<lparr>RunServerlessExec := (\<lambda>tr cmd c bools strs.
              (\<lparr>Captured = [''Deploying project /tmp/p'', ''Deployed actions:'']\<rparr>, None))\<rparr>)
          (testConfig [''/tmp/p''] [] []) []) = None \<and>
   snd (snd (RunServerlessExtraDeploy
          (testEnv\<lparr>RunServerlessExec := (\<lambda>tr cmd c bools strs.
              (\<lparr>Captured = [''Deploying project /tmp/p'', ''Deployed actions:'']\<rparr>, None))\<rparr>)
          (testConfig [''/tmp/p''] [] []) [])) =
     [EvExec ''deploy'' [''/tmp/p''] deployBoolFlags deployStringFlags,
      EvPrintServerlessTextOutput \<lparr>Captured = [''Deployed /tmp/p'', brandedDeployed]\<rparr>]"
proof -
  let ?c = "testConfig [''/tmp/p''] [] []"
  let ?e1 = "testEnv\<lparr>RunServerlessExec := (\<lambda>tr cmd c bools strs.
              (\<lparr>Captured = []\<rparr>, Some (ExternalErr ''not connected'')))\<rparr>"
  let ?e2 = "testEnv\<lparr>RunServerlessExec := (\<lambda>tr cmd c bools strs.
              (\<lparr>Captured = [''Deploying project /tmp/p'', ''build failed'']\<rparr>,
               Some (ExternalErr ''deploy failed''))),
            Fprint := (\<lambda>tr text. Some (ExternalErr ''broken pipe''))\<rparr>"
  let ?e3 = "testEnv\<lparr>RunServerlessExec := (\<lambda>tr cmd c bools strs.
              (\<lparr>Captured = [''Deploying project /tmp/p'', ''Deployed actions:'']\<rparr>, None))\<rparr>"
  have a: "length (Args ?c) = 1" by (simp add: testConfig_def)
  have args: "Args ?c = [''/tmp/p'']" by (simp add: testConfig_def)
  have x1: "RunServerlessExec ?e1 [] ''deploy'' (adjustIncludeAndExclude ?c)
              deployBoolFlags deployStringFlags =
            (\<lparr>Captured = []\<rparr>, Some (ExternalErr ''not connected''))"
    by simp
  have x2: "RunServerlessExec ?e2 [] ''deploy'' (adjustIncludeAndExclude ?c)
              deployBoolFlags deployStringFlags =
            (\<lparr>Captured = [''Deploying project /tmp/p'', ''build failed'']\<rparr>,
             Some (ExternalErr ''deploy failed''))"
    by simp
  have x3: "RunServerlessExec ?e3 [] ''deploy'' (adjustIncludeAndExclude ?c)
              deployBoolFlags deployStringFlags =
            (\<lparr>Captured = [''Deploying project /tmp/p'', ''Deployed actions:'']\<rparr>, None)"
    by simp
  have p3: "PrintServerlessTextOutput testEnv tr out = None" for tr out
    by (simp add: testEnv_def)
  have r1: "RunServerlessExtraDeploy ?e1 ?c [] =
     (Some (ExternalErr ''not connected''), adjustIncludeAndExclude ?c,
      [EvExec ''deploy'' [''/tmp/p''] deployBoolFlags deployStringFlags])"
    using deploy_error_policy [OF a x1] by (simp add: Let_def args)
  have r2: "RunServerlessExtraDeploy ?e2 ?c [] =
     (Some (ExternalErr ''deploy failed''), adjustIncludeAndExclude ?c,
      [EvExec ''deploy'' [''/tmp/p''] deployBoolFlags deployStringFlags,
       EvFprint ''Deployed /tmp/p\<newline>build failed\<newline>''])"
    using deploy_error_policy [OF a x2] by (simp add: Let_def args fixupLine_def)
  have r3: "RunServerlessExtraDeploy ?e3 ?c [] =
     (None, adjustIncludeAndExclude ?c,
      [EvExec ''deploy'' [''/tmp/p''] deployBoolFlags deployStringFlags,
       EvPrintServerlessTextOutput \<lparr>Captured = [''Deployed /tmp/p'', brandedDeployed]\<rparr>])"
    using deploy_error_policy [OF a x3] by (simp add: Let_def args fixupLine_def p3)
  show ?thesis by (simp only: r1 r2 r3 fst_conv snd_conv simp_thms)
qed

subsection \<open>The project scaffolder\<close>

lemma writeTypescriptFiles_trace:
  "\<exists>rest. snd (writeTypescriptFiles env tr actionDir) = tr @ rest"
  by (auto simp: writeTypescriptFiles_def writeAFile_def Let_def split: option.splits)

lemma writeProjectFiles_trace:
  "\<exists>rest. snd (writeProjectFiles env tr project configFile gitignoreFile config actionDir ts)
           = tr @ rest"
proof -
  obtain r where r: "snd (writeTypescriptFiles env
      ((tr @ [EvWriteFile configFile (fst (yaml_Marshal env config))]) @
        [EvWriteFile gitignoreFile (gitignores env @ ignoreForTypescript env)]) actionDir) =
      ((tr @ [EvWriteFile configFile (fst (yaml_Marshal env config))]) @
        [EvWriteFile gitignoreFile (gitignores env @ ignoreForTypescript env)]) @ r"
    using writeTypescriptFiles_trace by blast
  show ?thesis using r
    by (cases "writeTypescriptFiles env
      ((tr @ [EvWriteFile configFile (fst (yaml_Marshal env config))]) @
        [EvWriteFile gitignoreFile (gitignores env @ ignoreForTypescript env)]) actionDir")
       (auto simp: writeProjectFiles_def writeAFile_def Let_def
             split: option.splits prod.splits)
qed

lemma Split_first: "\<exists>rest. Split s sep = takeWhile (\<lambda>c. c \<noteq> sep) s # rest"
  by (induction s) auto

lemma findSamplePackage_None:
  "findSamplePackage pkgs = None \<longleftrightarrow> (\<forall>p \<in> set pkgs. Name p \<noteq> ''sample'')"
  by (induction pkgs) auto

lemma findSamplePackage_Some:
  "findSamplePackage pkgs = Some i \<Longrightarrow> i < length pkgs \<and> Name (pkgs ! i) = ''sample''"
  by (induction pkgs arbitrary: i) (auto split: if_splits)

lemma writeTypescriptFiles_Ok:
  "writeTypescriptFiles env tr actionDir = (None, tr1) \<Longrightarrow>
   tr1 = tr @ [EvWriteFile (filepath_Join env [actionDir, ''package.json''])
                 (packageJSONForTypescript env),
               EvWriteFile (filepath_Join env [actionDir, ''tsconfig.json'']) (tsconfigJSON env),
               EvWriteFile (filepath_Join env [actionDir, ''.include'']) ''lib\<newline>'']"
  by (auto simp: writeTypescriptFiles_def writeAFile_def Let_def split: option.splits)

lemma writeProjectFiles_Ok:
  "writeProjectFiles env tr project configFile gitignoreFile config actionDir ts = (Ok (), tr1) \<Longrightarrow>
   \<exists>data. yaml_Marshal env config = (data, None) \<and>
     tr1 = tr @ [EvWriteFile configFile data,
                 EvWriteFile gitignoreFile
                   (if ts then gitignores env @ ignoreForTypescript env else gitignores env)] @
           (if ts then
              [EvWriteFile (filepath_Join env [actionDir, ''package.json''])
                 (packageJSONForTypescript env),
               EvWriteFile (filepath_Join env [actionDir, ''tsconfig.json'']) (tsconfigJSON env),
               EvWriteFile (filepath_Join env [actionDir, ''.include'']) ''lib\<newline>'']
            else []) @
           [EvFprint (successMessage project)]"
proof (cases ts)
  case True
  assume a: "writeProjectFiles env tr project configFile gitignoreFile config actionDir ts = (Ok (), tr1)"
  obtain data merr where m: "yaml_Marshal env config = (data, merr)" by (cases "yaml_Marshal env config")
  let ?t6 = "(tr @ [EvWriteFile configFile data]) @
             [EvWriteFile gitignoreFile (gitignores env @ ignoreForTypescript env)]"
  obtain r t7 where w: "writeTypescriptFiles env ?t6 actionDir = (r, t7)"
    by (cases "writeTypescriptFiles env ?t6 actionDir")
  from a True m w have "merr = None \<and> r = None \<and> tr1 = t7 @ [EvFprint (successMessage project)]"
    by (auto simp: writeProjectFiles_def writeAFile_def Let_def split: option.splits)
  then show ?thesis using writeTypescriptFiles_Ok [of env ?t6 actionDir t7] w m True by simp
next
  case False
  assume a: "writeProjectFiles env tr project configFile gitignoreFile config actionDir ts = (Ok (), tr1)"
  then show ?thesis using False
    by (auto simp: writeProjectFiles_def writeAFile_def Let_def split: option.splits prod.splits)
qed

lemma generateSample_Ok:
  "generateSample env tr kind config sample samplePackage ts = (Ok (actionDir, config1), tr1) \<Longrightarrow>
   actionDir = filepath_Join env [samplePackage, ''hello''] \<and>
   tr1 = tr @ [EvMkdirAll actionDir] @
         (if ts then [EvMkdir (filepath_Join env [actionDir, ''src''])] else []) @
         [EvWriteFile
            (if ts then filepath_Join env [filepath_Join env [actionDir, ''src''], ''hello.ts'']
             else filepath_Join env [actionDir,
                    ''hello.'' @ fileExtensionForRuntime (takeWhile (\<lambda>c. c \<noteq> CHR '':'') kind)])
            sample] \<and>
   (\<exists>i. findSamplePackage (Packages config) = Some i \<and>
        config1 = config\<lparr>Packages := (Packages config)
                    [i := (Packages config ! i)\<lparr>Functions :=
                       [\<lparr>FuncName = ''hello'', Runtime = kind, Web = True, WebSecure = False\<rparr>]\<rparr>]\<rparr>)"
proof -
  assume a: "generateSample env tr kind config sample samplePackage ts = (Ok (actionDir, config1), tr1)"
  obtain rest where s: "Split kind (CHR '':'') = takeWhile (\<lambda>c. c \<noteq> CHR '':'') kind # rest"
    using Split_first by blast
  show ?thesis
  proof (cases ts)
    case True
    with a s show ?thesis
      by (auto simp: generateSample_def doMkdir_def writeAFile_def Let_def
               split: option.splits if_splits)
  next
    case False
    with a s show ?thesis
      by (auto simp: generateSample_def doMkdir_def writeAFile_def Let_def
               split: option.splits if_splits)
  qed
qed

lemma generateSample_trace:
  "\<exists>rest. snd (generateSample env tr kind config sample samplePackage ts) = tr @ rest"
proof -
  obtain rest where s: "Split kind (CHR '':'') = takeWhile (\<lambda>c. c \<noteq> CHR '':'') kind # rest"
    using Split_first by blast
  show ?thesis using s
    by (cases ts)
       (auto simp: generateSample_def doMkdir_def writeAFile_def Let_def
             split: option.splits if_splits)
qed

lemma configTemplate_sample:
  "findSamplePackage (Packages configTemplate) = Some 0 \<and>
   Name (Packages configTemplate ! 0) = ''sample''"
  by (simp add: configTemplate_def)

lemma scaffoldProject_Ok:
  "scaffoldProject env tr1 project overwrite kind sample ts = (Ok (), tr') \<Longrightarrow>
   \<exists>tr2 data.
     prepareProjectArea env tr1 project overwrite = (None, tr2) \<and>
     yaml_Marshal env
       \<lparr>Packages = [\<lparr>Name = ''sample'', Functions =
          [\<lparr>FuncName = ''hello'', Runtime = kind, Web = True, WebSecure = False\<rparr>]\<rparr>]\<rparr> =
       (data, None) \<and>
     tr' = tr2 @
       [EvMkdirAll (filepath_Join env [project, ''packages'', ''sample'']),
        EvMkdirAll (filepath_Join env [filepath_Join env [project, ''packages'', ''sample''], ''hello''])] @
       (if ts then [EvMkdir (filepath_Join env
           [filepath_Join env [filepath_Join env [project, ''packages'', ''sample''], ''hello''],
            ''src''])] else []) @
       [EvWriteFile
         (if ts then filepath_Join env [filepath_Join env
              [filepath_Join env [filepath_Join env [project, ''packages'', ''sample''], ''hello''],
               ''src''], ''hello.ts'']
          else filepath_Join env
              [filepath_Join env [filepath_Join env [project, ''packages'', ''sample''], ''hello''],
               ''hello.'' @ fileExtensionForRuntime (takeWhile (\<lambda>c. c \<noteq> CHR '':'') kind)])
         sample,
        EvWriteFile (filepath_Join env [project, ''project.yml'']) data,
        EvWriteFile (filepath_Join env [project, ''.gitignore''])
          (if ts then gitignores env @ ignoreForTypescript env else gitignores env)] @
       (if ts then
          [EvWriteFile (filepath_Join env
             [filepath_Join env [filepath_Join env [project, ''packages'', ''sample''], ''hello''],
              ''package.json'']) (packageJSONForTypescript env),
           EvWriteFile (filepath_Join env
             [filepath_Join env [filepath_Join env [project, ''packages'', ''sample''], ''hello''],
              ''tsconfig.json'']) (tsconfigJSON env),
           EvWriteFile (filepath_Join env
             [filepath_Join env [filepath_Join env [project, ''packages'', ''sample''], ''hello''],
              ''.include'']) ''lib\<newline>'']
        else []) @
       [EvFprint (successMessage project)]"
proof -
  assume a: "scaffoldProject env tr1 project overwrite kind sample ts = (Ok (), tr')"
  let ?sp = "filepath_Join env [project, ''packages'', ''sample'']"
  obtain r2 tr2 where p: "prepareProjectArea env tr1 project overwrite = (r2, tr2)"
    by (cases "prepareProjectArea env tr1 project overwrite")
  obtain r3 tr3 where d: "doMkdir env tr2 ?sp True = (r3, tr3)"
    by (cases "doMkdir env tr2 ?sp True")
  obtain g tr4 where gs: "generateSample env tr3 kind configTemplate sample ?sp ts = (g, tr4)"
    by (cases "generateSample env tr3 kind configTemplate sample ?sp ts")
  from a p d gs have r2: "r2 = None" and r3: "r3 = None"
    by (auto simp: scaffoldProject_def Let_def split: option.splits)
  from d r3 have tr3: "tr3 = tr2 @ [EvMkdirAll ?sp]" by (auto simp: doMkdir_def)
  from a p d gs r2 r3 obtain actionDir config1 where g: "g = Ok (actionDir, config1)"
    and w: "writeProjectFiles env tr4 project (filepath_Join env [project, ''project.yml''])
              (filepath_Join env [project, ''.gitignore'']) config1 actionDir ts = (Ok (), tr')"
    by (cases g) (auto simp: scaffoldProject_def Let_def)
  note G = generateSample_Ok [OF gs [unfolded g]]
  from G have ad: "actionDir = filepath_Join env [?sp, ''hello'']" by blast
  from G configTemplate_sample have c1: "config1 =
       \<lparr>Packages = [\<lparr>Name = ''sample'', Functions =
          [\<lparr>FuncName = ''hello'', Runtime = kind, Web = True, WebSecure = False\<rparr>]\<rparr>]\<rparr>"
    by (auto simp: configTemplate_def)
  from writeProjectFiles_Ok [OF w] obtain data where
    m: "yaml_Marshal env config1 = (data, None)" and
    t: "tr' = tr4 @ [EvWriteFile (filepath_Join env [project, ''project.yml'']) data,
                 EvWriteFile (filepath_Join env [project, ''.gitignore''])
                   (if ts then gitignores env @ ignoreForTypescript env else gitignores env)] @
           (if ts then
              [EvWriteFile (filepath_Join env [actionDir, ''package.json''])
                 (packageJSONForTypescript env),
               EvWriteFile (filepath_Join env [actionDir, ''tsconfig.json'']) (tsconfigJSON env),
               EvWriteFile (filepath_Join env [actionDir, ''.include'']) ''lib\<newline>'']
            else []) @
           [EvFprint (successMessage project)]"
    by blast
  from G have t4: "tr4 = tr3 @ [EvMkdirAll actionDir] @
         (if ts then [EvMkdir (filepath_Join env [actionDir, ''src''])] else []) @
         [EvWriteFile
            (if ts then filepath_Join env [filepath_Join env [actionDir, ''src''], ''hello.ts'']
             else filepath_Join env [actionDir,
                    ''hello.'' @ fileExtensionForRuntime (takeWhile (\<lambda>c. c \<noteq> CHR '':'') kind)])
            sample]" by blast
  show ?thesis
    apply (rule exI [of _ tr2], rule exI [of _ data])
    using p r2 m c1 t t4 tr3 ad by (cases ts) simp_all
qed

lemma Create_Ok:
  "RunServerlessExtraCreate env c tr = (Ok (), tr') \<Longrightarrow>
   \<exists>project kind sample ts tr1.
     Args c = [project] \<and>
     languageToKindAndSample env tr (fst (GetString (Doit c) (NS c) ''language'')) =
       (((kind, sample, ts), None), tr1) \<and>
     scaffoldProject env tr1 project (fst (GetBool (Doit c) (NS c) ''overwrite'')) kind sample ts =
       (Ok (), tr')"
proof -
  assume a: "RunServerlessExtraCreate env c tr = (Ok (), tr')"
  then have "length (Args c) = 1"
    by (auto simp: RunServerlessExtraCreate_def ensureOneArg_def split: if_splits)
  then obtain project where p: "Args c = [project]" by (cases "Args c") auto
  obtain kind sample ts lerr tr1 where
    l: "languageToKindAndSample env tr (fst (GetString (Doit c) (NS c) ''language'')) =
          (((kind, sample, ts), lerr), tr1)"
    by (cases "languageToKindAndSample env tr (fst (GetString (Doit c) (NS c) ''language''))") auto
  from a p l have "lerr = None \<and>
     scaffoldProject env tr1 project (fst (GetBool (Doit c) (NS c) ''overwrite'')) kind sample ts =
       (Ok (), tr')"
    by (cases lerr) (auto simp: RunServerlessExtraCreate_def ensureOneArg_def split_def)
  then show ?thesis using p l by blast
qed

lemma languageToKindAndSample_kind:
  "languageToKindAndSample env tr language = (((kind, sample, ts), None), tr1) \<Longrightarrow>
   (\<exists>runtime. kind = runtime @ '':default'') \<and>
   (ts \<longleftrightarrow> ToLower env language = ''ts'' \<or> ToLower env language = ''typescript'')"
  by (auto simp: languageToKindAndSample_def Let_def split_def split: if_splits)

lemma no_file_changes_by_host_calls:
  "filter (\<lambda>e. \<not> contactsHost e) evs = [] \<Longrightarrow> filter changesFiles evs = []"
proof (induction evs)
  case Nil
  then show ?case by simp
next
  case (Cons e evs)
  then show ?case by (cases e) (auto split: if_splits)
qed

lemma scaffoldProject_trace:
  "\<exists>rest. snd (scaffoldProject env tr1 project overwrite kind sample ts) =
          snd (prepareProjectArea env tr1 project overwrite) @ rest"
proof -
  let ?sp = "filepath_Join env [project, ''packages'', ''sample'']"
  obtain r2 tr2 where p: "prepareProjectArea env tr1 project overwrite = (r2, tr2)"
    by (cases "prepareProjectArea env tr1 project overwrite")
  obtain r3 tr3 where d: "doMkdir env tr2 ?sp True = (r3, tr3)"
    by (cases "doMkdir env tr2 ?sp True")
  from d have tr3: "tr3 = tr2 @ [EvMkdirAll ?sp]" by (auto simp: doMkdir_def)
  obtain g tr4 where gs: "generateSample env tr3 kind configTemplate sample ?sp ts = (g, tr4)"
    by (cases "generateSample env tr3 kind configTemplate sample ?sp ts")
  obtain r4 where tr4: "tr4 = tr3 @ r4"
    using generateSample_trace [of env tr3 kind configTemplate sample ?sp ts] gs by auto
  show ?thesis
  proof (cases r2)
    case (Some e)
    then show ?thesis using p by (simp add: scaffoldProject_def Let_def)
  next
    case None
    note r2 = None
    show ?thesis
    proof (cases r3)
      case (Some e)
      then show ?thesis using p r2 d tr3 by (simp add: scaffoldProject_def Let_def)
    next
      case None
      note r3 = None
      show ?thesis
      proof (cases g)
        case (Ok x)
        obtain actionDir config1 where x: "x = (actionDir, config1)" by (cases x)
        obtain r5 where "snd (writeProjectFiles env tr4 project
            (filepath_Join env [project, ''project.yml''])
            (filepath_Join env [project, ''.gitignore'']) config1 actionDir ts) = tr4 @ r5"
          using writeProjectFiles_trace by blast
        then show ?thesis using p r2 d r3 gs Ok x tr3 tr4
          by (simp add: scaffoldProject_def Let_def)
      next
        case (Err e)
        then show ?thesis using p r2 d r3 gs tr3 tr4 by (simp add: scaffoldProject_def Let_def)
      next
        case (Panic s)
        then show ?thesis using p r2 d r3 gs tr3 tr4 by (simp add: scaffoldProject_def Let_def)
      qed
    qed
  qed
qed

lemma scaffoldProject_not_exist:
  "os_Stat env tr1 project = StatNotExist e \<Longrightarrow>
   \<exists>rest. snd (scaffoldProject env tr1 project overwrite kind sample ts) =
     tr1 @ [EvStat project, EvMkdirAll (filepath_Join env [project, ''packages'', ''sample''])] @ rest"
proof -
  assume s: "os_Stat env tr1 project = StatNotExist e"
  let ?sp = "filepath_Join env [project, ''packages'', ''sample'']"
  let ?tr2 = "tr1 @ [EvStat project]"
  have p: "prepareProjectArea env tr1 project overwrite = (None, ?tr2)"
    using s by (simp add: prepareProjectArea_def Let_def)
  obtain r3 where d: "doMkdir env ?tr2 ?sp True = (r3, ?tr2 @ [EvMkdirAll ?sp])"
    by (simp add: doMkdir_def)
  let ?tr3 = "?tr2 @ [EvMkdirAll ?sp]"
  obtain g tr4 where gs: "generateSample env ?tr3 kind configTemplate sample ?sp ts = (g, tr4)"
    by (cases "generateSample env ?tr3 kind configTemplate sample ?sp ts")
  obtain r4 where tr4: "tr4 = ?tr3 @ r4"
    using generateSample_trace [of env ?tr3 kind configTemplate sample ?sp ts] gs by auto
  show ?thesis
  proof (cases r3)
    case (Some e)
    then show ?thesis using p d by (simp add: scaffoldProject_def Let_def)
  next
    case None
    note r3 = None
    show ?thesis
    proof (cases g)
      case (Ok x)
      obtain actionDir config1 where x: "x = (actionDir, config1)" by (cases x)
      obtain r5 where "snd (writeProjectFiles env tr4 project
          (filepath_Join env [project, ''project.yml''])
          (filepath_Join env [project, ''.gitignore'']) config1 actionDir ts) = tr4 @ r5"
        using writeProjectFiles_trace by blast
      then show ?thesis using p d r3 gs Ok x tr4 by (simp add: scaffoldProject_def Let_def)
    next
      case (Err e)
      then show ?thesis using p d r3 gs tr4 by (simp add: scaffoldProject_def Let_def)
    next
      case (Panic s)
      then show ?thesis using p d r3 gs tr4 by (simp add: scaffoldProject_def Let_def)
    qed
  qed
qed

lemma Create_after_language:
  "Args c = [project] \<Longrightarrow>
   languageToKindAndSample env tr0 (fst (GetString (Doit c) (NS c) ''language'')) =
     (((kind, sample, ts), None), tr) \<Longrightarrow>
   RunServerlessExtraCreate env c tr0 =
     scaffoldProject env tr project (fst (GetBool (Doit c) (NS c) ''overwrite'')) kind sample ts"
  by (simp add: RunServerlessExtraCreate_def ensureOneArg_def split_def)

text \<open>
  Claim C1. \<^verbatim>\<open>prepareProjectArea\<close> asks \<^verbatim>\<open>os.Stat\<close> once. If the path does not
  exist it returns no error and does nothing else. If the path exists (empty or not) and
  the overwrite flag is false, it returns the error
  \<^verbatim>\<open><path> already exists; use '--overwrite' to replace\<close> and does nothing else. If the
  path exists and the flag is true, it calls \<^verbatim>\<open>os.RemoveAll\<close> on the path and returns
  what that call answers. For \<^verbatim>\<open>init\<close> with one positional argument and a language
  that has been accepted: resolving the language has changed no file; on an existing path
  without the flag, \<^verbatim>\<open>init\<close> returns the error above, and the trace holds no event that
  changes the file system; with the flag, the removal of the path comes right after the
  \<^verbatim>\<open>os.Stat\<close>, before every directory made and file written; on a path that does not
  exist the scaffolding goes on with the sample package directory.
\<close>

theorem prepareProjectArea_policy:
  "(os_Stat env tr project = StatNotExist e \<longrightarrow>
      prepareProjectArea env tr project overwrite = (None, tr @ [EvStat project])) \<and>
   (os_Stat env tr project = StatOk \<and> \<not> overwrite \<longrightarrow>
      prepareProjectArea env tr project overwrite =
        (Some (Errorf (project @ '' already exists; use '--overwrite' to replace'')),
         tr @ [EvStat project])) \<and>
   (os_Stat env tr project = StatOk \<and> overwrite \<longrightarrow>
      prepareProjectArea env tr project overwrite =
        (os_RemoveAll env (tr @ [EvStat project]) project,
         tr @ [EvStat project, EvRemoveAll project])) \<and>
   (Args c = [project] \<and> fst (GetBool (Doit c) (NS c) ''overwrite'') = overwrite \<and>
    languageToKindAndSample env tr0 (fst (GetString (Doit c) (NS c) ''language'')) =
      ((k, None), tr) \<longrightarrow>
      filter changesFiles tr = filter changesFiles tr0 \<and>
      (os_Stat env tr project = StatOk \<and> \<not> overwrite \<longrightarrow>
         RunServerlessExtraCreate env c tr0 =
           (Err (Errorf (project @ '' already exists; use '--overwrite' to replace'')),
            tr @ [EvStat project]) \<and>
         filter changesFiles (tr @ [EvStat project]) = filter changesFiles tr0) \<and>
      (os_Stat env tr project = StatOk \<and> overwrite \<longrightarrow>
         (\<exists>rest. snd (RunServerlessExtraCreate env c tr0) =
                  tr @ [EvStat project, EvRemoveAll project] @ rest)) \<and>
      (os_Stat env tr project = StatNotExist e \<longrightarrow>
         (\<exists>rest. snd (RunServerlessExtraCreate env c tr0) =
                  tr @ [EvStat project,
                        EvMkdirAll (filepath_Join env [project, ''packages'', ''sample''])] @ rest)))"
proof (intro conjI impI)
  assume "os_Stat env tr project = StatNotExist e"
  then show "prepareProjectArea env tr project overwrite = (None, tr @ [EvStat project])"
    by (simp add: prepareProjectArea_def Let_def)
next
  assume "os_Stat env tr project = StatOk \<and> \<not> overwrite"
  then show "prepareProjectArea env tr project overwrite =
        (Some (Errorf (project @ '' already exists; use '--overwrite' to replace'')),
         tr @ [EvStat project])"
    by (simp add: prepareProjectArea_def Let_def)
next
  assume "os_Stat env tr project = StatOk \<and> overwrite"
  then show "prepareProjectArea env tr project overwrite =
        (os_RemoveAll env (tr @ [EvStat project]) project,
         tr @ [EvStat project, EvRemoveAll project])"
    by (simp add: prepareProjectArea_def Let_def)
next
  assume h: "Args c = [project] \<and> fst (GetBool (Doit c) (NS c) ''overwrite'') = overwrite \<and>
    languageToKindAndSample env tr0 (fst (GetString (Doit c) (NS c) ''language'')) =
      ((k, None), tr)"
  obtain evs where "snd (languageToKindAndSample env tr0
        (fst (GetString (Doit c) (NS c) ''language''))) = tr0 @ evs"
    and "filter (\<lambda>e. \<not> contactsHost e) evs = []"
    using languageToKindAndSample_trace by blast
  then have "tr = tr0 @ evs" and "filter changesFiles evs = []"
    using h no_file_changes_by_host_calls by auto
  then show f: "filter changesFiles tr = filter changesFiles tr0" by simp
  obtain kind sample ts where k: "k = (kind, sample, ts)" by (cases k)
  have run: "RunServerlessExtraCreate env c tr0 =
     scaffoldProject env tr project overwrite kind sample ts"
    using Create_after_language [of c project env tr0 kind sample ts tr] h k by simp
  {
    assume s: "os_Stat env tr project = StatOk \<and> \<not> overwrite"
    then show "RunServerlessExtraCreate env c tr0 =
           (Err (Errorf (project @ '' already exists; use '--overwrite' to replace'')),
            tr @ [EvStat project])"
      by (simp add: run scaffoldProject_def prepareProjectArea_def Let_def)
    show "filter changesFiles (tr @ [EvStat project]) = filter changesFiles tr0"
      using f by simp
  }
  {
    assume s: "os_Stat env tr project = StatOk \<and> overwrite"
    then have "snd (prepareProjectArea env tr project overwrite) =
                 tr @ [EvStat project, EvRemoveAll project]"
      by (simp add: prepareProjectArea_def Let_def)
    then show "\<exists>rest. snd (RunServerlessExtraCreate env c tr0) =
                  tr @ [EvStat project, EvRemoveAll project] @ rest"
      using scaffoldProject_trace [of env tr project overwrite kind sample ts] run by simp
  }
  {
    assume s: "os_Stat env tr project = StatNotExist e"
    then show "\<exists>rest. snd (RunServerlessExtraCreate env c tr0) =
                  tr @ [EvStat project,
                        EvMkdirAll (filepath_Join env [project, ''packages'', ''sample''])] @ rest"
      using scaffoldProject_not_exist [of env tr project e overwrite kind sample ts] run by simp
  }
qed

lemma testEnv_javascript:
  "languageToKindAndSample (testEnv\<lparr>os_Stat := st\<rparr>) [] ''javascript'' =
     (((''nodejs:default'', ''function main(args) { return {body: 1} }'', False), None), [])"
  by (simp add: languageToKindAndSample_def isValidLanguage_def validateRuntime_def
        sampleFor_def testEnv_def asciiLower_def Let_def)

text \<open>\<^verbatim>\<open>init ./proj\<close> on an existing path without and with \<^verbatim>\<open>--overwrite\<close>, and on
  a path that does not exist.\<close>

theorem prepareProjectArea_policy_witness:
  "os_Stat (testEnv\<lparr>os_Stat := (\<lambda>tr path. StatOk)\<rparr>) [] ''./proj'' = StatOk \<and>
   RunServerlessExtraCreate (testEnv\<lparr>os_Stat := (\<lambda>tr path. StatOk)\<rparr>)
     (testConfig [''./proj''] [(''language'', ''javascript'')] []) [] =
     (Err (Errorf ''./proj already exists; use '--overwrite' to replace''), [EvStat ''./proj'']) \<and>
   take 2 (snd (RunServerlessExtraCreate (testEnv\<lparr>os_Stat := (\<lambda>tr path. StatOk)\<rparr>)
     (testConfig [''./proj''] [(''language'', ''javascript'')] [''overwrite'']) [])) =
     [EvStat ''./proj'', EvRemoveAll ''./proj''] \<and>
   take 2 (snd (RunServerlessExtraCreate testEnv
     (testConfig [''./proj''] [(''language'', ''javascript'')] []) [])) =
     [EvStat ''./proj'', EvMkdirAll ''proj/packages/sample'']"
proof -
  let ?ex = "testEnv\<lparr>os_Stat := (\<lambda>tr path. StatOk)\<rparr>"
  let ?c = "testConfig [''./proj''] [(''language'', ''javascript'')] []"
  let ?co = "testConfig [''./proj''] [(''language'', ''javascript'')] [''overwrite'']"
  let ?k = "(''nodejs:default'', ''function main(args) { return {body: 1} }'', False)"
  have st: "os_Stat ?ex [] ''./proj'' = StatOk" by simp
  have sn: "os_Stat testEnv [] ''./proj'' = StatNotExist (ExternalErr ''no such file or directory'')"
    by (simp add: testEnv_def)
  have l1: "languageToKindAndSample ?ex [] (fst (GetString (Doit ?c) (NS ?c) ''language'')) =
              ((?k, None), [])"
    using testEnv_javascript [of "\<lambda>tr path. StatOk"] by (simp add: testConfig_def)
  have l2: "languageToKindAndSample ?ex [] (fst (GetString (Doit ?co) (NS ?co) ''language'')) =
              ((?k, None), [])"
    using testEnv_javascript [of "\<lambda>tr path. StatOk"] by (simp add: testConfig_def)
  have l3: "languageToKindAndSample testEnv [] (fst (GetString (Doit ?c) (NS ?c) ''language'')) =
              ((?k, None), [])"
    using testEnv_javascript [of "os_Stat testEnv"] by (simp add: testConfig_def)
  have h1: "Args ?c = [''./proj''] \<and> fst (GetBool (Doit ?c) (NS ?c) ''overwrite'') = False \<and>
            languageToKindAndSample ?ex [] (fst (GetString (Doit ?c) (NS ?c) ''language'')) =
              ((?k, None), [])"
    using l1 by (simp add: testConfig_def)
  have h2: "Args ?co = [''./proj''] \<and> fst (GetBool (Doit ?co) (NS ?co) ''overwrite'') = True \<and>
            languageToKindAndSample ?ex [] (fst (GetString (Doit ?co) (NS ?co) ''language'')) =
              ((?k, None), [])"
    using l2 by (simp add: testConfig_def)
  have h3: "Args ?c = [''./proj''] \<and> fst (GetBool (Doit ?c) (NS ?c) ''overwrite'') = False \<and>
            languageToKindAndSample testEnv [] (fst (GetString (Doit ?c) (NS ?c) ''language'')) =
              ((?k, None), [])"
    using l3 by (simp add: testConfig_def)
  have r1: "RunServerlessExtraCreate ?ex ?c [] =
     (Err (Errorf ''./proj already exists; use '--overwrite' to replace''), [EvStat ''./proj''])"
    using prepareProjectArea_policy [of ?ex "[]" "''./proj''" "ExternalErr ''no such file or directory''" False ?c "[]" ?k] h1 st by simp
  have "\<exists>rest. snd (RunServerlessExtraCreate ?ex ?co []) =
          [] @ [EvStat ''./proj'', EvRemoveAll ''./proj''] @ rest"
    using prepareProjectArea_policy [of ?ex "[]" "''./proj''" "ExternalErr ''no such file or directory''" True ?co "[]" ?k] h2 st by blast
  then have r2: "take 2 (snd (RunServerlessExtraCreate ?ex ?co [])) =
          [EvStat ''./proj'', EvRemoveAll ''./proj'']" by auto
  have j: "filepath_Join testEnv [''./proj'', ''packages'', ''sample''] = ''proj/packages/sample''"
    by (simp add: testEnv_def unixJoin_def unixClean_def)
  have "\<exists>rest. snd (RunServerlessExtraCreate testEnv ?c []) =
          [] @ [EvStat ''./proj'',
                EvMkdirAll (filepath_Join testEnv [''./proj'', ''packages'', ''sample''])] @ rest"
    using prepareProjectArea_policy [of testEnv "[]" "''./proj''" "ExternalErr ''no such file or directory''"
                    False ?c "[]" ?k] h3 sn by blast
  then have r3: "take 2 (snd (RunServerlessExtraCreate testEnv ?c [])) =
          [EvStat ''./proj'', EvMkdirAll ''proj/packages/sample'']"
    unfolding j by auto
  show ?thesis using st r1 r2 r3 by (simp only: simp_thms)
qed

text \<open>
  The defensive check of \<^verbatim>\<open>generateSample\<close>. When the loop finds a package, its name
  is \<^verbatim>\<open>sample\<close> (\<open>findSamplePackage_Some\<close>), so the test that follows the loop never
  fails on a pointer that was found; when the loop finds none, \<^verbatim>\<open>sampPkg\<close> is nil and
  the test reads \<^verbatim>\<open>sampPkg.Name\<close> through it. With a file system on which the
  calls succeed, every specification without a package named \<^verbatim>\<open>sample\<close> ends in the
  panic.
\<close>

lemma generateSample_without_sample_package:
  "\<forall>p \<in> set (Packages config). Name p \<noteq> ''sample'' \<Longrightarrow>
   \<forall>tr path. os_MkdirAll env tr path = None \<Longrightarrow>
   \<forall>tr path. os_Mkdir env tr path = None \<Longrightarrow>
   \<forall>tr path contents. os_WriteFile env tr path contents = None \<Longrightarrow>
   fst (generateSample env tr kind config sample samplePackage ts) =
     Panic ''nil pointer dereference''"
proof -
  assume a: "\<forall>p \<in> set (Packages config). Name p \<noteq> ''sample''"
    and b: "\<forall>tr path. os_MkdirAll env tr path = None"
    and c: "\<forall>tr path. os_Mkdir env tr path = None"
    and d: "\<forall>tr path contents. os_WriteFile env tr path contents = None"
  obtain rest where s: "Split kind (CHR '':'') = takeWhile (\<lambda>c. c \<noteq> CHR '':'') kind # rest"
    using Split_first by blast
  have f: "findSamplePackage (Packages config) = None"
    using a by (simp add: findSamplePackage_None)
  show ?thesis using s f b c d
    by (cases ts) (simp_all add: generateSample_def doMkdir_def writeAFile_def Let_def)
qed

text \<open>
  Claim C7 says that \<^verbatim>\<open>generateSample\<close>, given a specification with no package named
  \<^verbatim>\<open>sample\<close>, returns the error \<^verbatim>\<open>could not find sample package in config (internal
  error)\<close> and does not crash. Run on a specification whose only package is named
  \<^verbatim>\<open>default\<close>, the function makes the directory, writes the sample and then panics on
  the nil pointer; the error is not returned. (The other half of the claim holds:
  \<open>configTemplate_sample\<close> shows that a specification built by \<^verbatim>\<open>configTemplate\<close> has
  the package, so \<^verbatim>\<open>init\<close> never reaches the check with a nil pointer.)
\<close>

theorem generateSample_missing_package_panics:
  "generateSample testEnv [] ''nodejs:default''
     \<lparr>Packages = [\<lparr>Name = ''default'', Functions = []\<rparr>]\<rparr>
     ''function main(args) { return {body: 1} }'' ''proj/packages/sample'' False =
   (Panic ''nil pointer dereference'',
    [EvMkdirAll ''proj/packages/sample/hello'',
     EvWriteFile ''proj/packages/sample/hello/hello.js''
       ''function main(args) { return {body: 1} }''])"
  by (simp add: generateSample_def doMkdir_def writeAFile_def fileExtensionForRuntime_def
        testEnv_def unixJoin_def unixClean_def Let_def)

text \<open>
  Claim C8. The specification built by \<^verbatim>\<open>configTemplate\<close> has exactly one package,
  named \<^verbatim>\<open>sample\<close>. When \<^verbatim>\<open>generateSample\<close> succeeds on it, the specification it
  leaves has that one package with exactly one function: \<^verbatim>\<open>hello\<close>, with the given
  kind as runtime, \<^verbatim>\<open>Web\<close> true and \<^verbatim>\<open>WebSecure\<close> false. When \<^verbatim>\<open>init\<close>
  succeeds, the language resolver has returned a kind \<^verbatim>\<open><runtime>:default\<close>, and the
  file \<^verbatim>\<open>project.yml\<close> of the project has been written with the serialization of
  exactly that specification with that kind.
\<close>

theorem scaffolded_spec_invariant:
  "Packages configTemplate = [\<lparr>Name = ''sample'', Functions = []\<rparr>] \<and>
   (generateSample env tr kind configTemplate sample samplePackage ts =
      (Ok (actionDir, config1), tr1) \<longrightarrow>
    config1 = \<lparr>Packages = [\<lparr>Name = ''sample'', Functions =
       [\<lparr>FuncName = ''hello'', Runtime = kind, Web = True, WebSecure = False\<rparr>]\<rparr>]\<rparr>) \<and>
   (RunServerlessExtraCreate env c tr = (Ok (), tr') \<longrightarrow>
    (\<exists>project runtime sample ts tr1 data.
       Args c = [project] \<and>
       languageToKindAndSample env tr (fst (GetString (Doit c) (NS c) ''language'')) =
         (((runtime @ '':default'', sample, ts), None), tr1) \<and>
       yaml_Marshal env
         \<lparr>Packages = [\<lparr>Name = ''sample'', Functions =
            [\<lparr>FuncName = ''hello'', Runtime = runtime @ '':default'',
              Web = True, WebSecure = False\<rparr>]\<rparr>]\<rparr> = (data, None) \<and>
       EvWriteFile (filepath_Join env [project, ''project.yml'']) data \<in> set tr'))"
proof (intro conjI impI)
  show "Packages configTemplate = [\<lparr>Name = ''sample'', Functions = []\<rparr>]"
    by (simp add: configTemplate_def)
next
  assume "generateSample env tr kind configTemplate sample samplePackage ts =
      (Ok (actionDir, config1), tr1)"
  from generateSample_Ok [OF this] configTemplate_sample
  show "config1 = \<lparr>Packages = [\<lparr>Name = ''sample'', Functions =
       [\<lparr>FuncName = ''hello'', Runtime = kind, Web = True, WebSecure = False\<rparr>]\<rparr>]\<rparr>"
    by (auto simp: configTemplate_def)
next
  assume a: "RunServerlessExtraCreate env c tr = (Ok (), tr')"
  from Create_Ok [OF a] obtain project kind sample ts tr1 where
    p: "Args c = [project]" and
    l: "languageToKindAndSample env tr (fst (GetString (Doit c) (NS c) ''language'')) =
       (((kind, sample, ts), None), tr1)" and
    s: "scaffoldProject env tr1 project (fst (GetBool (Doit c) (NS c) ''overwrite'')) kind sample ts =
       (Ok (), tr')"
    by blast
  from languageToKindAndSample_kind [OF l] obtain runtime where k: "kind = runtime @ '':default''"
    by blast
  from scaffoldProject_Ok [OF s] obtain tr2 data where
    m: "yaml_Marshal env
       \<lparr>Packages = [\<lparr>Name = ''sample'', Functions =
          [\<lparr>FuncName = ''hello'', Runtime = kind, Web = True, WebSecure = False\<rparr>]\<rparr>]\<rparr> =
       (data, None)" and
    w: "EvWriteFile (filepath_Join env [project, ''project.yml'']) data \<in> set tr'"
    by auto
  show "\<exists>project runtime sample ts tr1 data.
       Args c = [project] \<and>
       languageToKindAndSample env tr (fst (GetString (Doit c) (NS c) ''language'')) =
         (((runtime @ '':default'', sample, ts), None), tr1) \<and>
       yaml_Marshal env
         \<lparr>Packages = [\<lparr>Name = ''sample'', Functions =
            [\<lparr>FuncName = ''hello'', Runtime = runtime @ '':default'',
              Web = True, WebSecure = False\<rparr>]\<rparr>]\<rparr> = (data, None) \<and>
       EvWriteFile (filepath_Join env [project, ''project.yml'']) data \<in> set tr'"
    using p l m w unfolding k by blast
qed

text \<open>
  Claim C9. The extension is \<^verbatim>\<open>js\<close> for \<^verbatim>\<open>nodejs\<close>, \<^verbatim>\<open>py\<close> for
  \<^verbatim>\<open>python\<close> and the runtime itself for every other runtime. When
  \<^verbatim>\<open>generateSample\<close> succeeds it has made the directory \<^verbatim>\<open>hello\<close> of the sample
  package with its parents and written the sample to \<^verbatim>\<open>hello.<extension>\<close> in it, the
  runtime being the part of the kind before the first colon; for typescript it has made the
  directory \<^verbatim>\<open>src\<close> in between and written \<^verbatim>\<open>src/hello.ts\<close>. When \<^verbatim>\<open>init\<close>
  succeeds for the language \<^verbatim>\<open>ts\<close> or \<^verbatim>\<open>typescript\<close> (after lowercasing), the
  trace ends with: the sample package directory, the directory \<^verbatim>\<open>hello\<close>, the directory
  \<^verbatim>\<open>src\<close>, the file \<^verbatim>\<open>src/hello.ts\<close>, \<^verbatim>\<open>project.yml\<close>, a
  \<^verbatim>\<open>.gitignore\<close> holding the base ignores followed by the typescript ignores,
  \<^verbatim>\<open>package.json\<close>, \<^verbatim>\<open>tsconfig.json\<close>, an \<^verbatim>\<open>.include\<close> holding exactly
  \<^verbatim>\<open>lib\<close> and a newline, and the success message. Paths are built by
  \<^verbatim>\<open>filepath.Join\<close> as the code builds them.
\<close>

theorem sample_files_for_typescript:
  "fileExtensionForRuntime ''nodejs'' = ''js'' \<and>
   fileExtensionForRuntime ''python'' = ''py'' \<and>
   (runtime \<noteq> ''nodejs'' \<and> runtime \<noteq> ''python'' \<longrightarrow> fileExtensionForRuntime runtime = runtime) \<and>
   (generateSample env tr kind config sample samplePackage ts = (Ok (actionDir, config1), tr1) \<longrightarrow>
      actionDir = filepath_Join env [samplePackage, ''hello''] \<and>
      tr1 = tr @ [EvMkdirAll actionDir] @
        (if ts then [EvMkdir (filepath_Join env [actionDir, ''src''])] else []) @
        [EvWriteFile
           (if ts then filepath_Join env [filepath_Join env [actionDir, ''src''], ''hello.ts'']
            else filepath_Join env [actionDir,
                   ''hello.'' @ fileExtensionForRuntime (takeWhile (\<lambda>c. c \<noteq> CHR '':'') kind)])
           sample]) \<and>
   ((ToLower env (fst (GetString (Doit c) (NS c) ''language'')) = ''ts'' \<or>
     ToLower env (fst (GetString (Doit c) (NS c) ''language'')) = ''typescript'') \<and>
    RunServerlessExtraCreate env c tr = (Ok (), tr') \<longrightarrow>
    (\<exists>project before data source.
       Args c = [project] \<and>
       (let samplePackage = filepath_Join env [project, ''packages'', ''sample''];
            actionDir = filepath_Join env [samplePackage, ''hello''];
            srcDir = filepath_Join env [actionDir, ''src'']
        in tr' = before @
          [EvMkdirAll samplePackage,
           EvMkdirAll actionDir,
           EvMkdir srcDir,
           EvWriteFile (filepath_Join env [srcDir, ''hello.ts'']) source,
           EvWriteFile (filepath_Join env [project, ''project.yml'']) data,
           EvWriteFile (filepath_Join env [project, ''.gitignore''])
             (gitignores env @ ignoreForTypescript env),
           EvWriteFile (filepath_Join env [actionDir, ''package.json''])
             (packageJSONForTypescript env),
           EvWriteFile (filepath_Join env [actionDir, ''tsconfig.json'']) (tsconfigJSON env),
           EvWriteFile (filepath_Join env [actionDir, ''.include'']) ''lib\<newline>'',
           EvFprint (successMessage project)])))"
proof (intro conjI impI)
  show "fileExtensionForRuntime ''nodejs'' = ''js''" by (simp add: fileExtensionForRuntime_def)
  show "fileExtensionForRuntime ''python'' = ''py''" by (simp add: fileExtensionForRuntime_def)
next
  assume "runtime \<noteq> ''nodejs'' \<and> runtime \<noteq> ''python''"
  then show "fileExtensionForRuntime runtime = runtime" by (simp add: fileExtensionForRuntime_def)
next
  assume g: "generateSample env tr kind config sample samplePackage ts = (Ok (actionDir, config1), tr1)"
  from generateSample_Ok [OF g] show "actionDir = filepath_Join env [samplePackage, ''hello'']"
    by blast
  from generateSample_Ok [OF g] show "tr1 = tr @ [EvMkdirAll actionDir] @
        (if ts then [EvMkdir (filepath_Join env [actionDir, ''src''])] else []) @
        [EvWriteFile
           (if ts then filepath_Join env [filepath_Join env [actionDir, ''src''], ''hello.ts'']
            else filepath_Join env [actionDir,
                   ''hello.'' @ fileExtensionForRuntime (takeWhile (\<lambda>c. c \<noteq> CHR '':'') kind)])
           sample]"
    by blast
next
  assume h: "(ToLower env (fst (GetString (Doit c) (NS c) ''language'')) = ''ts'' \<or>
     ToLower env (fst (GetString (Doit c) (NS c) ''language'')) = ''typescript'') \<and>
    RunServerlessExtraCreate env c tr = (Ok (), tr')"
  then have a: "RunServerlessExtraCreate env c tr = (Ok (), tr')" by simp
  from Create_Ok [OF a] obtain project kind sample ts tr1 where
    p: "Args c = [project]" and
    l: "languageToKindAndSample env tr (fst (GetString (Doit c) (NS c) ''language'')) =
       (((kind, sample, ts), None), tr1)" and
    s: "scaffoldProject env tr1 project (fst (GetBool (Doit c) (NS c) ''overwrite'')) kind sample ts =
       (Ok (), tr')"
    by blast
  from languageToKindAndSample_kind [OF l] h have ts: ts by blast
  from scaffoldProject_Ok [OF s] ts obtain tr2 data where
    t: "tr' = tr2 @
       [EvMkdirAll (filepath_Join env [project, ''packages'', ''sample'']),
        EvMkdirAll (filepath_Join env [filepath_Join env [project, ''packages'', ''sample''], ''hello'']),
        EvMkdir (filepath_Join env
           [filepath_Join env [filepath_Join env [project, ''packages'', ''sample''], ''hello''],
            ''src'']),
        EvWriteFile
         (filepath_Join env [filepath_Join env
              [filepath_Join env [filepath_Join env [project, ''packages'', ''sample''], ''hello''],
               ''src''], ''hello.ts''])
         sample,
        EvWriteFile (filepath_Join env [project, ''project.yml'']) data,
        EvWriteFile (filepath_Join env [project, ''.gitignore''])
          (gitignores env @ ignoreForTypescript env),
        EvWriteFile (filepath_Join env
             [filepath_Join env [filepath_Join env [project, ''packages'', ''sample''], ''hello''],
              ''package.json'']) (packageJSONForTypescript env),
        EvWriteFile (filepath_Join env
             [filepath_Join env [filepath_Join env [project, ''packages'', ''sample''], ''hello''],
              ''tsconfig.json'']) (tsconfigJSON env),
        EvWriteFile (filepath_Join env
             [filepath_Join env [filepath_Join env [project, ''packages'', ''sample''], ''hello''],
              ''.include'']) ''lib\<newline>'',
        EvFprint (successMessage project)]"
    by auto
  show "\<exists>project before data source.
       Args c = [project] \<and>
       (let samplePackage = filepath_Join env [project, ''packages'', ''sample''];
            actionDir = filepath_Join env [samplePackage, ''hello''];
            srcDir = filepath_Join env [actionDir, ''src'']
        in tr' = before @
          [EvMkdirAll samplePackage,
           EvMkdirAll actionDir,
           EvMkdir srcDir,
           EvWriteFile (filepath_Join env [srcDir, ''hello.ts'']) source,
           EvWriteFile (filepath_Join env [project, ''project.yml'']) data,
           EvWriteFile (filepath_Join env [project, ''.gitignore''])
             (gitignores env @ ignoreForTypescript env),
           EvWriteFile (filepath_Join env [actionDir, ''package.json''])
             (packageJSONForTypescript env),
           EvWriteFile (filepath_Join env [actionDir, ''tsconfig.json'']) (tsconfigJSON env),
           EvWriteFile (filepath_Join env [actionDir, ''.include'']) ''lib\<newline>'',
           EvFprint (successMessage project)])"
    apply (rule exI [of _ project], rule exI [of _ tr2], rule exI [of _ data],
           rule exI [of _ sample])
    using p t by (simp add: Let_def)
qed

lemma testEnv_init_typescript:
  "fst (RunServerlessExtraCreate testEnv
          (testConfig [''./proj''] [(''language'', ''TypeScript'')] []) []) = Ok ()"
  by (simp add: RunServerlessExtraCreate_def scaffoldProject_def writeProjectFiles_def
        testEnv_def testConfig_def ensureOneArg_def languageToKindAndSample_def asciiLower_def
        isValidLanguage_def validateRuntime_def sampleFor_def configTemplate_def unixJoin_def
        unixClean_def prepareProjectArea_def doMkdir_def generateSample_def writeAFile_def
        renderSpec_def writeTypescriptFiles_def Let_def)

lemma testEnv_generate_go:
  "generateSample testEnv [] ''go:default'' configTemplate ''package main''
     ''proj/packages/sample'' False =
   (Ok (''proj/packages/sample/hello'',
        \<lparr>Packages = [\<lparr>Name = ''sample'', Functions =
           [\<lparr>FuncName = ''hello'', Runtime = ''go:default'', Web = True, WebSecure = False\<rparr>]\<rparr>]\<rparr>),
    [EvMkdirAll ''proj/packages/sample/hello'',
     EvWriteFile ''proj/packages/sample/hello/hello.go'' ''package main''])"
  by (simp add: generateSample_def doMkdir_def writeAFile_def fileExtensionForRuntime_def
        configTemplate_def testEnv_def unixJoin_def unixClean_def Let_def)

text \<open>\<^verbatim>\<open>init ./proj -l TypeScript\<close> in the test environment.\<close>

theorem scaffolded_spec_invariant_witness:
  "RunServerlessExtraCreate testEnv (testConfig [''./proj''] [(''language'', ''TypeScript'')] []) [] =
     (Ok (), snd (RunServerlessExtraCreate testEnv
                    (testConfig [''./proj''] [(''language'', ''TypeScript'')] []) [])) \<and>
   (\<exists>data. yaml_Marshal testEnv
         \<lparr>Packages = [\<lparr>Name = ''sample'', Functions =
            [\<lparr>FuncName = ''hello'', Runtime = ''nodejs:default'',
              Web = True, WebSecure = False\<rparr>]\<rparr>]\<rparr> = (data, None) \<and>
       EvWriteFile ''proj/project.yml'' data \<in>
         set (snd (RunServerlessExtraCreate testEnv
                (testConfig [''./proj''] [(''language'', ''TypeScript'')] []) [])))"
proof -
  let ?c = "testConfig [''./proj''] [(''language'', ''TypeScript'')] []"
  let ?T = "snd (RunServerlessExtraCreate testEnv ?c [])"
  have h: "RunServerlessExtraCreate testEnv ?c [] = (Ok (), ?T)"
    using testEnv_init_typescript by (simp add: prod_eq_iff)
  from scaffolded_spec_invariant [where env = testEnv and c = ?c and tr = "[]" and tr' = ?T] h
  obtain project runtime sample ts tr1 data where
    p: "Args ?c = [project]" and
    l: "languageToKindAndSample testEnv [] (fst (GetString (Doit ?c) (NS ?c) ''language'')) =
         (((runtime @ '':default'', sample, ts), None), tr1)" and
    m: "yaml_Marshal testEnv
         \<lparr>Packages = [\<lparr>Name = ''sample'', Functions =
            [\<lparr>FuncName = ''hello'', Runtime = runtime @ '':default'',
              Web = True, WebSecure = False\<rparr>]\<rparr>]\<rparr> = (data, None)" and
    w: "EvWriteFile (filepath_Join testEnv [project, ''project.yml'']) data \<in> set ?T"
    by blast
  from p have pr: "project = ''./proj''" by (simp add: testConfig_def)
  have "languageToKindAndSample testEnv [] (fst (GetString (Doit ?c) (NS ?c) ''language'')) =
     (((''nodejs:default'', ''export function main(args: {}): {} { return {body: 1} }'', True),
       None), [])"
    by (simp add: languageToKindAndSample_def isValidLanguage_def validateRuntime_def
          sampleFor_def testEnv_def testConfig_def asciiLower_def Let_def)
  with l have k: "runtime @ '':default'' = ''nodejs:default''" by simp
  have j: "filepath_Join testEnv [''./proj'', ''project.yml''] = ''proj/project.yml''"
    by (simp add: testEnv_def unixJoin_def unixClean_def)
  show ?thesis using h m w unfolding k pr j by blast
qed

text \<open>\<^verbatim>\<open>init ./proj -l TypeScript\<close> with the Unix \<^verbatim>\<open>filepath.Join\<close>: the files are
  \<^verbatim>\<open>proj/packages/sample/hello/src/hello.ts\<close> and so on; and the sample for
  \<^verbatim>\<open>go\<close> is \<^verbatim>\<open>hello.go\<close>.\<close>

theorem sample_files_for_typescript_witness:
  "ToLower testEnv (fst (GetString (Doit (testConfig [''./proj''] [(''language'', ''TypeScript'')] []))
      (NS (testConfig [''./proj''] [(''language'', ''TypeScript'')] [])) ''language'')) =
     ''typescript'' \<and>
   RunServerlessExtraCreate testEnv (testConfig [''./proj''] [(''language'', ''TypeScript'')] []) [] =
     (Ok (), snd (RunServerlessExtraCreate testEnv
                    (testConfig [''./proj''] [(''language'', ''TypeScript'')] []) [])) \<and>
   (\<exists>before data source.
      snd (RunServerlessExtraCreate testEnv
             (testConfig [''./proj''] [(''language'', ''TypeScript'')] []) []) =
      before @
        [EvMkdirAll ''proj/packages/sample'',
         EvMkdirAll ''proj/packages/sample/hello'',
         EvMkdir ''proj/packages/sample/hello/src'',
         EvWriteFile ''proj/packages/sample/hello/src/hello.ts'' source,
         EvWriteFile ''proj/project.yml'' data,
         EvWriteFile ''proj/.gitignore'' (gitignores testEnv @ ignoreForTypescript testEnv),
         EvWriteFile ''proj/packages/sample/hello/package.json'' (packageJSONForTypescript testEnv),
         EvWriteFile ''proj/packages/sample/hello/tsconfig.json'' (tsconfigJSON testEnv),
         EvWriteFile ''proj/packages/sample/hello/.include'' ''lib\<newline>'',
         EvFprint (successMessage ''./proj'')]) \<and>
   ''go'' \<noteq> ''nodejs'' \<and> ''go'' \<noteq> ''python'' \<and> fileExtensionForRuntime ''go'' = ''go'' \<and>
   generateSample testEnv [] ''go:default'' configTemplate ''package main''
     ''proj/packages/sample'' False =
   (Ok (''proj/packages/sample/hello'',
        \<lparr>Packages = [\<lparr>Name = ''sample'', Functions =
           [\<lparr>FuncName = ''hello'', Runtime = ''go:default'', Web = True, WebSecure = False\<rparr>]\<rparr>]\<rparr>),
    [EvMkdirAll ''proj/packages/sample/hello'',
     EvWriteFile ''proj/packages/sample/hello/hello.go'' ''package main'']) \<and>
   ''proj/packages/sample/hello'' = filepath_Join testEnv [''proj/packages/sample'', ''hello'']"
proof -
  let ?c = "testConfig [''./proj''] [(''language'', ''TypeScript'')] []"
  let ?T = "snd (RunServerlessExtraCreate testEnv ?c [])"
  let ?cfg = "\<lparr>Packages = [\<lparr>Name = ''sample'', Functions =
           [\<lparr>FuncName = ''hello'', Runtime = ''go:default'', Web = True, WebSecure = False\<rparr>]\<rparr>]\<rparr>"
  let ?G = "[EvMkdirAll ''proj/packages/sample/hello'',
     EvWriteFile ''proj/packages/sample/hello/hello.go'' ''package main'']"
  have lw: "ToLower testEnv (fst (GetString (Doit ?c) (NS ?c) ''language'')) = ''typescript''"
    by (simp add: testEnv_def testConfig_def asciiLower_def)
  have h: "RunServerlessExtraCreate testEnv ?c [] = (Ok (), ?T)"
    using testEnv_init_typescript by (simp add: prod_eq_iff)
  have go: "''go'' \<noteq> ''nodejs'' \<and> ''go'' \<noteq> ''python''" by simp
  note inst = sample_files_for_typescript [where runtime = "''go''" and env = testEnv and tr = "[]"
      and kind = "''go:default''" and config = configTemplate and sample = "''package main''"
      and samplePackage = "''proj/packages/sample''" and ts = False
      and actionDir = "''proj/packages/sample/hello''" and ?config1.0 = ?cfg and ?tr1.0 = ?G
      and c = ?c and tr' = ?T]
  from inst lw h obtain project before data source where
    p: "Args ?c = [project]" and
    t: "let samplePackage = filepath_Join testEnv [project, ''packages'', ''sample''];
            actionDir = filepath_Join testEnv [samplePackage, ''hello''];
            srcDir = filepath_Join testEnv [actionDir, ''src'']
        in ?T = before @
          [EvMkdirAll samplePackage,
           EvMkdirAll actionDir,
           EvMkdir srcDir,
           EvWriteFile (filepath_Join testEnv [srcDir, ''hello.ts'']) source,
           EvWriteFile (filepath_Join testEnv [project, ''project.yml'']) data,
           EvWriteFile (filepath_Join testEnv [project, ''.gitignore''])
             (gitignores testEnv @ ignoreForTypescript testEnv),
           EvWriteFile (filepath_Join testEnv [actionDir, ''package.json''])
             (packageJSONForTypescript testEnv),
           EvWriteFile (filepath_Join testEnv [actionDir, ''tsconfig.json'']) (tsconfigJSON testEnv),
           EvWriteFile (filepath_Join testEnv [actionDir, ''.include'']) ''lib\<newline>'',
           EvFprint (successMessage project)]"
    by blast
  from p have pr: "project = ''./proj''" by (simp add: testConfig_def)
  have j: "filepath_Join testEnv [''./proj'', ''packages'', ''sample''] = ''proj/packages/sample''"
    "filepath_Join testEnv [''proj/packages/sample'', ''hello''] = ''proj/packages/sample/hello''"
    "filepath_Join testEnv [''proj/packages/sample/hello'', ''src''] =
       ''proj/packages/sample/hello/src''"
    "filepath_Join testEnv [''proj/packages/sample/hello/src'', ''hello.ts''] =
       ''proj/packages/sample/hello/src/hello.ts''"
    "filepath_Join testEnv [''./proj'', ''project.yml''] = ''proj/project.yml''"
    "filepath_Join testEnv [''./proj'', ''.gitignore''] = ''proj/.gitignore''"
    "filepath_Join testEnv [''proj/packages/sample/hello'', ''package.json''] =
       ''proj/packages/sample/hello/package.json''"
    "filepath_Join testEnv [''proj/packages/sample/hello'', ''tsconfig.json''] =
       ''proj/packages/sample/hello/tsconfig.json''"
    "filepath_Join testEnv [''proj/packages/sample/hello'', ''.include''] =
       ''proj/packages/sample/hello/.include''"
    by (simp_all add: testEnv_def unixJoin_def unixClean_def)
  from t have t': "?T = before @
        [EvMkdirAll ''proj/packages/sample'',
         EvMkdirAll ''proj/packages/sample/hello'',
         EvMkdir ''proj/packages/sample/hello/src'',
         EvWriteFile ''proj/packages/sample/hello/src/hello.ts'' source,
         EvWriteFile ''proj/project.yml'' data,
         EvWriteFile ''proj/.gitignore'' (gitignores testEnv @ ignoreForTypescript testEnv),
         EvWriteFile ''proj/packages/sample/hello/package.json'' (packageJSONForTypescript testEnv),
         EvWriteFile ''proj/packages/sample/hello/tsconfig.json'' (tsconfigJSON testEnv),
         EvWriteFile ''proj/packages/sample/hello/.include'' ''lib\<newline>'',
         EvFprint (successMessage ''./proj'')]"
    unfolding pr Let_def j .
  from inst go have ext: "fileExtensionForRuntime ''go'' = ''go''" by blast
  from inst testEnv_generate_go
  have ad: "''proj/packages/sample/hello'' = filepath_Join testEnv [''proj/packages/sample'', ''hello'']"
    by blast
  show ?thesis using lw h t' go ext testEnv_generate_go ad by blast
qed

end
